theory Spec2Isabelle
  imports Main "HOL-Library.Word"
begin

section \<open>Errors, references and the two layers of the embedding\<close>

text \<open>
  The module wraps a NumPy array in the class \<open>Matrix2D\<close> and overloads the arithmetic
  operators. All numeric work is done by NumPy, so the embedding has two layers: the part
  of NumPy that the class calls (array construction from nested lists, \<open>reshape(1, -1)\<close>,
  the broadcasting binary operations, \<open>matmul\<close>, \<open>power\<close>), and the class itself,
  translated method by method.

  The type of the entries is a parameter of the embedding: the constructor, the store and
  broadcasting do not look at the entries, and the operators use the arithmetic of the entry
  type. Two entry types are given. NumPy's default integer dtype \<open>int64\<close> is a 64-bit word
  whose arithmetic wraps around. NumPy's default floating-point dtype \<open>float64\<close> is IEEE
  binary64 with round-to-nearest-even. One store holds entries of one type: a computation
  that mixes dtypes, integers that NumPy would store in another dtype, and the dtype tag
  itself (an empty array has no entries to tell it by) are outside the embedding.

  An array object is a shape and a reference to the buffer that holds its entries in
  row-major order; two array objects may share one buffer (a view). The store holds the
  array objects and the buffers; a reference is an index into it, and allocation appends.
  A Python reference always points to a live object, so the properties that read an array
  through a reference assume that the reference is valid in the store.
\<close>

type_synonym int64 = "64 word"
type_synonym ref = nat

datatype error = TypeError string | ValueError string | IndexError string

section \<open>Entries of dtype \<open>float64\<close>\<close>

text \<open>
  A finite binary64 number is \<open>m * 2 ^ e\<close>, written \<open>Finite m e\<close> with \<open>m\<close> odd, or
  \<open>Finite 0 0\<close> for zero (the sign of zero is not kept); \<open>Infinity neg\<close> is the infinity of
  that sign. Equality of this type is identity of the value: \<open>NaN\<close> is one value here, where
  the comparison \<open>==\<close> of NumPy is false on it.
\<close>

datatype float64 = Finite int int | Infinity bool | NaN

text \<open>The number of binary digits of a positive integer, as \<open>int.bit_length\<close> gives it.\<close>

function bit_length :: "int \<Rightarrow> nat" where
  "bit_length n = (if n \<le> 0 then 0 else Suc (bit_length (n div 2)))"
  by pat_completeness auto

termination
  by (relation "measure nat") auto

declare bit_length.simps [simp del]

text \<open>The representation with an odd mantissa.\<close>

function normalise :: "int \<Rightarrow> int \<Rightarrow> float64" where
  "normalise m e =
     (if m = 0 then Finite 0 0
      else if even m then normalise (m div 2) (e + 1)
      else Finite m e)"
  by pat_completeness auto

termination
  by (relation "measure (\<lambda>(m, e). nat \<bar>m\<bar>)") auto

declare normalise.simps [simp del]

text \<open>
  The binary64 number nearest to the exact value \<open>M * 2 ^ E\<close>, ties to the even mantissa:
  the mantissa keeps 53 digits, the exponent of its last digit is at least \<open>-1074\<close>
  (gradual underflow), and a rounded value of \<open>2 ^ 1024\<close> or more is an infinity.
\<close>

definition fl_round :: "int \<Rightarrow> int \<Rightarrow> float64" where
  "fl_round M E =
     (if M = 0 then Finite 0 0
      else
        (let a = \<bar>M\<bar>;
             s = nat (max 0 (max (int (bit_length a) - 53) (- 1074 - E)));
             q = a div 2 ^ s;
             r = a mod 2 ^ s;
             q' = (if 2 * r > 2 ^ s \<or> (2 * r = 2 ^ s \<and> odd q) then q + 1 else q)
         in if q' = 0 then Finite 0 0
            else if int (bit_length q') + (E + int s) > 1024 then Infinity (M < 0)
            else normalise (sgn M * q') (E + int s)))"

text \<open>
  Addition: the exact sum of two finite numbers, rounded; an infinity absorbs a finite
  number; the sum of the two infinities of opposite sign, and any sum with \<open>NaN\<close>, is \<open>NaN\<close>.
\<close>

fun float64_add :: "float64 \<Rightarrow> float64 \<Rightarrow> float64" where
  "float64_add (Finite m1 e1) (Finite m2 e2) =
     (let E = min e1 e2
      in fl_round (m1 * 2 ^ nat (e1 - E) + m2 * 2 ^ nat (e2 - E)) E)"
| "float64_add (Infinity a) (Infinity b) = (if a = b then Infinity a else NaN)"
| "float64_add (Infinity a) (Finite m e) = Infinity a"
| "float64_add (Finite m e) (Infinity b) = Infinity b"
| "float64_add NaN y = NaN"
| "float64_add x NaN = NaN"

fun float64_neg :: "float64 \<Rightarrow> float64" where
  "float64_neg (Finite m e) = Finite (- m) e"
| "float64_neg (Infinity a) = Infinity (\<not> a)"
| "float64_neg NaN = NaN"

instantiation float64 :: "{plus, minus}"
begin

definition plus_float64 :: "float64 \<Rightarrow> float64 \<Rightarrow> float64" where
  "plus_float64 x y = float64_add x y"

definition minus_float64 :: "float64 \<Rightarrow> float64 \<Rightarrow> float64" where
  "minus_float64 x y = float64_add x (float64_neg y)"

instance ..

end

section \<open>Python values and the array store\<close>

text \<open>Python numbers and the sequences built from them.\<close>

datatype 'a pyval = PyNum 'a | PyList "'a pyval list" | PyTuple "'a pyval list"

record Matrix2D =
  mat :: ref

text \<open>
  The objects a caller can pass: a number or a nested list or tuple, an existing array, a
  \<open>Matrix2D\<close> instance, or an object of some other class (here \<open>None\<close>).
\<close>

datatype 'a pyobj = Val "'a pyval" | Ndarray ref | Matrix Matrix2D | NoneObj

record ndarray =
  shape :: "nat list"
  base :: ref

record 'a heap =
  objs :: "ndarray list"
  bufs :: "'a list list"

text \<open>The value of an array: its shape and its entries in row-major order.\<close>

type_synonym 'a ndvalue = "nat list \<times> 'a list"

definition ndim :: "ndarray \<Rightarrow> nat" where
  "ndim a = length (shape a)"

definition size_of :: "nat list \<Rightarrow> nat" where
  "size_of s = prod_list s"

definition read_array :: "'a heap \<Rightarrow> ref \<Rightarrow> 'a ndvalue" where
  "read_array h r = (shape (objs h ! r), bufs h ! base (objs h ! r))"

text \<open>A new array object on a new buffer, as every NumPy computation returns.\<close>

definition new_array :: "'a ndvalue \<Rightarrow> 'a heap \<Rightarrow> ref \<times> 'a heap" where
  "new_array v h =
     (length (objs h),
      \<lparr>objs = objs h @ [\<lparr>shape = fst v, base = length (bufs h)\<rparr>],
       bufs = bufs h @ [snd v]\<rparr>)"

text \<open>
  \<open>data.reshape(1, -1)\<close>: a new array object of shape \<open>(1, size)\<close> that is a view on the
  buffer of \<open>data\<close> (the unknown dimension is the size divided by the known one).
\<close>

definition reshape_row :: "ref \<Rightarrow> 'a heap \<Rightarrow> ref \<times> 'a heap" where
  "reshape_row r h =
     (length (objs h),
      h\<lparr>objs := objs h @ [\<lparr>shape = [1, size_of (shape (objs h ! r)) div 1],
                            base = base (objs h ! r)\<rparr>]\<rparr>)"

section \<open>NumPy: arrays from nested sequences\<close>

text \<open>
  \<open>np.array\<close> discovers the shape of a nested sequence: a number has shape \<open>()\<close>, an
  empty sequence has shape \<open>(0,)\<close>, and a sequence whose items all have the same shape
  \<open>s\<close> has shape \<open>(len, *s)\<close>. Items of different shapes raise \<open>ValueError\<close>
  (inhomogeneous shape). Tuples nested in the sequence count as sequences. An array has at
  most \<open>NPY_MAXDIMS\<close> dimensions (64 in NumPy 2): a sequence nested deeper raises
  \<open>ValueError\<close> too. The texts of the two messages are abridged, and of a sequence that is
  both ragged and too deep the embedding says only which class of exception it raises.
\<close>

definition NPY_MAXDIMS :: nat where
  "NPY_MAXDIMS = 64"

fun seq_shape :: "nat list option list \<Rightarrow> nat list option" where
  "seq_shape [] = Some [0]"
| "seq_shape (None # ss) = None"
| "seq_shape (Some s # ss) =
     (if list_all (\<lambda>t. t = Some s) ss then Some (Suc (length ss) # s) else None)"

fun np_shape :: "'a pyval \<Rightarrow> nat list option" where
  "np_shape (PyNum v) = Some []"
| "np_shape (PyList xs) = seq_shape (map np_shape xs)"
| "np_shape (PyTuple xs) = seq_shape (map np_shape xs)"

fun np_flat :: "'a pyval \<Rightarrow> 'a list" where
  "np_flat (PyNum v) = [v]"
| "np_flat (PyList xs) = concat (map np_flat xs)"
| "np_flat (PyTuple xs) = concat (map np_flat xs)"

definition np_array :: "'a pyval \<Rightarrow> error + 'a ndvalue" where
  "np_array v =
     (case np_shape v of
        None \<Rightarrow> Inl (ValueError ''setting an array element with a sequence: inhomogeneous shape'')
      | Some s \<Rightarrow>
          if length s > NPY_MAXDIMS
          then Inl (ValueError ''setting an array element with a sequence: too many dimensions'')
          else Inr (s, np_flat v))"

text \<open>The Python value \<open>[[...[v]...]]\<close>: the number \<open>v\<close> inside \<open>n\<close> pairs of brackets.\<close>

fun nested :: "nat \<Rightarrow> 'a \<Rightarrow> 'a pyval" where
  "nested 0 v = PyNum v"
| "nested (Suc n) v = PyList [nested n v]"

section \<open>NumPy: broadcasting and the binary operations\<close>

text \<open>
  Two shapes are aligned at their last dimension, the shorter one padded with 1 on the left;
  two dimensions are compatible when they are equal or one of them is 1.
\<close>

definition pad_shape :: "nat \<Rightarrow> nat list \<Rightarrow> nat list" where
  "pad_shape n s = replicate (n - length s) 1 @ s"

definition broadcast_dim :: "nat \<Rightarrow> nat \<Rightarrow> nat option" where
  "broadcast_dim a b =
     (if a = b then Some a else if a = 1 then Some b else if b = 1 then Some a else None)"

fun broadcast_dims :: "nat list \<Rightarrow> nat list \<Rightarrow> nat list option" where
  "broadcast_dims [] [] = Some []"
| "broadcast_dims (a # s) (b # t) =
     (case broadcast_dim a b of
        None \<Rightarrow> None
      | Some d \<Rightarrow> (case broadcast_dims s t of None \<Rightarrow> None | Some ds \<Rightarrow> Some (d # ds)))"
| "broadcast_dims _ _ = None"

definition broadcast_shapes :: "nat list \<Rightarrow> nat list \<Rightarrow> nat list option" where
  "broadcast_shapes s t =
     (let n = max (length s) (length t) in broadcast_dims (pad_shape n s) (pad_shape n t))"

text \<open>
  The entries of an array of shape \<open>s\<close> seen at the target shape \<open>t\<close> (of the same
  length): along a dimension of the same extent the sub-arrays follow one another, along a
  dimension of extent 1 the one sub-array is repeated.
\<close>

fun broadcast_to :: "nat list \<Rightarrow> nat list \<Rightarrow> 'a list \<Rightarrow> 'a list" where
  "broadcast_to (t # ts) (s # ss) xs =
     (let n = size_of ss in
      if s = t
      then concat (map (\<lambda>k. broadcast_to ts ss (take n (drop (k * n) xs))) [0..<t])
      else concat (replicate t (broadcast_to ts ss xs)))"
| "broadcast_to _ _ xs = xs"

definition broadcast_error :: error where
  "broadcast_error = ValueError ''operands could not be broadcast together''"

definition np_binop :: "('a \<Rightarrow> 'a \<Rightarrow> 'a) \<Rightarrow> 'a ndvalue \<Rightarrow> 'a ndvalue \<Rightarrow> error + 'a ndvalue" where
  "np_binop f a b =
     (case broadcast_shapes (fst a) (fst b) of
        None \<Rightarrow> Inl broadcast_error
      | Some s \<Rightarrow>
          Inr (s, map2 f (broadcast_to s (pad_shape (length s) (fst a)) (snd a))
                         (broadcast_to s (pad_shape (length s) (fst b)) (snd b))))"

text \<open>
  \<open>np.power\<close> on integer arrays: entrywise power with wrap-around; a negative exponent
  raises \<open>ValueError\<close>. Powers of floating-point entries are not embedded.
\<close>

definition np_power :: "int64 ndvalue \<Rightarrow> int64 ndvalue \<Rightarrow> error + int64 ndvalue" where
  "np_power a b =
     (case broadcast_shapes (fst a) (fst b) of
        None \<Rightarrow> Inl broadcast_error
      | Some s \<Rightarrow>
          (let xs = broadcast_to s (pad_shape (length s) (fst a)) (snd a);
               es = broadcast_to s (pad_shape (length s) (fst b)) (snd b)
           in if list_ex (\<lambda>e. sint e < 0) es
              then Inl (ValueError ''Integers to negative integer powers are not allowed.'')
              else Inr (s, map2 (\<lambda>x e. x ^ nat (sint e)) xs es)))"

text \<open>
  The second operand of \<open>self.mat + other\<close> when \<open>other\<close> is not a \<open>Matrix2D\<close>, and the
  exponent of \<open>np.power\<close>: a number, list or tuple is converted by \<open>np.array\<close>, an array
  is used as it is. Any other object becomes a 0-d array of objects: the result has the
  shape of the first operand, and the operation on the first pair of entries raises
  \<open>TypeError\<close>, so only an empty result is returned.
\<close>

definition object_error :: error where
  "object_error = TypeError ''unsupported operand type(s)''"

definition with_operand ::
  "('a ndvalue \<Rightarrow> 'a ndvalue \<Rightarrow> error + 'a ndvalue) \<Rightarrow>
   'a ndvalue \<Rightarrow> 'a pyobj \<Rightarrow> 'a heap \<Rightarrow> error + 'a ndvalue" where
  "with_operand op a other h =
     (case other of
        Val v \<Rightarrow> (case np_array v of Inl e \<Rightarrow> Inl e | Inr b \<Rightarrow> op a b)
      | Ndarray r \<Rightarrow> op a (read_array h r)
      | _ \<Rightarrow> if size_of (fst a) = 0 then Inr (fst a, []) else Inl object_error)"

section \<open>NumPy: matrix product\<close>

text \<open>
  The product of an \<open>n \<times> k\<close> and a \<open>k \<times> p\<close> matrix, both row-major: entry \<open>(i, j)\<close> is
  the sum over \<open>l\<close> of \<open>x[i, l] * y[l, j]\<close>. The entries form a semiring, as \<open>int64\<close>
  does: there the order of the additions does not matter. The product of floating-point
  matrices, whose rounding depends on the order that the linear-algebra library chooses, is
  not embedded.
\<close>

definition matmul2 ::
  "nat \<Rightarrow> nat \<Rightarrow> nat \<Rightarrow> ('a::semiring_0) list \<Rightarrow> 'a list \<Rightarrow> 'a list" where
  "matmul2 n k p xs ys =
     concat (map (\<lambda>i. map (\<lambda>j. sum_list (map (\<lambda>l. xs ! (i * k + l) * ys ! (l * p + j)) [0..<k]))
                          [0..<p])
                 [0..<n])"

text \<open>
  \<open>np.matmul\<close>: a 0-d operand raises \<open>ValueError\<close>; a 1-d first operand is a row, a 1-d
  second operand a column, and the added dimension is removed from the result; the inner
  dimensions must agree; the leading dimensions are broadcast and the matrices multiplied
  pairwise.
\<close>

definition np_matmul ::
  "('a::semiring_0) ndvalue \<Rightarrow> 'a ndvalue \<Rightarrow> error + 'a ndvalue" where
  "np_matmul a b =
     (if fst a = [] \<or> fst b = []
      then Inl (ValueError ''matmul: Input operand does not have enough dimensions'')
      else
        (let sa = (if length (fst a) = 1 then 1 # fst a else fst a);
             sb = (if length (fst b) = 1 then fst b @ [1] else fst b);
             n = last (butlast sa); k = last sa;
             k' = last (butlast sb); p = last sb
         in if k \<noteq> k'
            then Inl (ValueError ''matmul: Input operand 1 has a mismatch in its core dimension 0'')
            else
              (case broadcast_shapes (butlast (butlast sa)) (butlast (butlast sb)) of
                 None \<Rightarrow> Inl broadcast_error
               | Some bs \<Rightarrow>
                   (let xs = broadcast_to (bs @ [n, k]) (pad_shape (length bs + 2) sa) (snd a);
                        ys = broadcast_to (bs @ [k, p]) (pad_shape (length bs + 2) sb) (snd b);
                        zs = concat (map (\<lambda>c. matmul2 n k p (take (n * k) (drop (c * (n * k)) xs))
                                                               (take (k * p) (drop (c * (k * p)) ys)))
                                         [0..<size_of bs])
                    in Inr (bs @ (if length (fst a) = 1 then [] else [n])
                               @ (if length (fst b) = 1 then [] else [p]), zs)))))"

section \<open>The class \<open>Matrix2D\<close>\<close>

text \<open>
  \<open>__init__\<close>: a list is converted by \<open>np.array\<close> into a new array; anything that is then
  not an array raises \<open>TypeError\<close>; a 1-d array is reshaped to one row, an array that is
  neither 1-d nor 2-d raises \<open>ValueError\<close>; the array is stored in \<open>self.mat\<close> as it is,
  without a copy. An exception leaves the caller's store as it was.
\<close>

definition to_array :: "'a pyobj \<Rightarrow> 'a heap \<Rightarrow> error + ('a pyobj \<times> 'a heap)" where
  "to_array data h =
     (case data of
        Val (PyList xs) \<Rightarrow>
          (case np_array (PyList xs) of
             Inl e \<Rightarrow> Inl e
           | Inr v \<Rightarrow> (let (r, h') = new_array v h in Inr (Ndarray r, h')))
      | _ \<Rightarrow> Inr (data, h))"

definition Matrix2D_init :: "'a pyobj \<Rightarrow> 'a heap \<Rightarrow> error + (Matrix2D \<times> 'a heap)" where
  "Matrix2D_init data h =
     (case to_array data h of
        Inl e \<Rightarrow> Inl e
      | Inr (data', h') \<Rightarrow>
          (case data' of
             Ndarray r \<Rightarrow>
               if ndim (objs h' ! r) = 1
               then (let (r', h'') = reshape_row r h' in Inr (\<lparr>mat = r'\<rparr>, h''))
               else if ndim (objs h' ! r) \<noteq> 2
               then Inl (ValueError ''Only 1D or 2D matrices are allowed'')
               else Inr (\<lparr>mat = r\<rparr>, h')
           | _ \<Rightarrow> Inl (TypeError ''Data must be a list or NumPy array'')))"

text \<open>
  Every operator computes its result with NumPy and passes it to the constructor:
  \<open>Matrix2D(self.mat + other.mat)\<close>. The result is a new array, except that NumPy
  returns a result of rank 0 as a scalar: the constructor is then given a number.
\<close>

definition wrap_result :: "error + 'a ndvalue \<Rightarrow> 'a heap \<Rightarrow> error + (Matrix2D \<times> 'a heap)" where
  "wrap_result res h =
     (case res of
        Inl e \<Rightarrow> Inl e
      | Inr v \<Rightarrow>
          if fst v = [] then Matrix2D_init (Val (PyNum (hd (snd v)))) h
          else (let (r, h') = new_array v h in Matrix2D_init (Ndarray r) h'))"

definition Matrix2D_add ::
  "Matrix2D \<Rightarrow> ('a::plus) pyobj \<Rightarrow> 'a heap \<Rightarrow> error + (Matrix2D \<times> 'a heap)" where
  "Matrix2D_add self other h =
     (case other of
        Matrix m \<Rightarrow> wrap_result (np_binop (+) (read_array h (mat self)) (read_array h (mat m))) h
      | _ \<Rightarrow> wrap_result (with_operand (np_binop (+)) (read_array h (mat self)) other h) h)"

definition Matrix2D_sub ::
  "Matrix2D \<Rightarrow> ('a::minus) pyobj \<Rightarrow> 'a heap \<Rightarrow> error + (Matrix2D \<times> 'a heap)" where
  "Matrix2D_sub self other h =
     (case other of
        Matrix m \<Rightarrow> wrap_result (np_binop (-) (read_array h (mat self)) (read_array h (mat m))) h
      | _ \<Rightarrow> wrap_result (with_operand (np_binop (-)) (read_array h (mat self)) other h) h)"

definition Matrix2D_mul ::
  "Matrix2D \<Rightarrow> ('a::times) pyobj \<Rightarrow> 'a heap \<Rightarrow> error + (Matrix2D \<times> 'a heap)" where
  "Matrix2D_mul self other h =
     (case other of
        Matrix m \<Rightarrow> wrap_result (np_binop (*) (read_array h (mat self)) (read_array h (mat m))) h
      | _ \<Rightarrow> wrap_result (with_operand (np_binop (*)) (read_array h (mat self)) other h) h)"

definition Matrix2D_matmul ::
  "Matrix2D \<Rightarrow> ('a::semiring_0) pyobj \<Rightarrow> 'a heap \<Rightarrow> error + (Matrix2D \<times> 'a heap)" where
  "Matrix2D_matmul self other h =
     (case other of
        Matrix m \<Rightarrow> wrap_result (np_matmul (read_array h (mat self)) (read_array h (mat m))) h
      | _ \<Rightarrow> Inl (TypeError ''Matrix multiplication requires another Matrix2D''))"

definition Matrix2D_pow ::
  "Matrix2D \<Rightarrow> int64 pyobj \<Rightarrow> int64 heap \<Rightarrow> error + (Matrix2D \<times> int64 heap)" where
  "Matrix2D_pow self pow h =
     wrap_result (with_operand np_power (read_array h (mat self)) pow h) h"

text \<open>
  \<open>__str__\<close> returns NumPy's rendering of the array; the renderer is a parameter.
\<close>

definition Matrix2D_str :: "('a ndvalue \<Rightarrow> string) \<Rightarrow> Matrix2D \<Rightarrow> 'a heap \<Rightarrow> string" where
  "Matrix2D_str render self h = render (read_array h (mat self))"

definition Matrix2D_shape :: "Matrix2D \<Rightarrow> 'a heap \<Rightarrow> nat list" where
  "Matrix2D_shape self h = shape (objs h ! mat self)"

text \<open>
  \<open>demo_complex_expression\<close> builds \<open>A\<close> and \<open>B\<close>, evaluates
  \<open>(A + B) @ ((A - B) ** 2)\<close> (left operand first), prints a header line and the result,
  and returns the result. The printed lines are returned with it.
\<close>

definition demo_complex_expression ::
  "(int64 ndvalue \<Rightarrow> string) \<Rightarrow> int64 heap \<Rightarrow> error + (Matrix2D \<times> int64 heap \<times> string list)"
  where
  "demo_complex_expression render h =
     (case Matrix2D_init (Val (PyList [PyList [PyNum 1, PyNum 2], PyList [PyNum 3, PyNum 4]])) h of
        Inl e \<Rightarrow> Inl e
      | Inr (A, h1) \<Rightarrow>
     (case Matrix2D_init (Val (PyList [PyNum 5, PyNum 6])) h1 of
        Inl e \<Rightarrow> Inl e
      | Inr (B, h2) \<Rightarrow>
     (case Matrix2D_add A (Matrix B) h2 of
        Inl e \<Rightarrow> Inl e
      | Inr (apb, h3) \<Rightarrow>
     (case Matrix2D_sub A (Matrix B) h3 of
        Inl e \<Rightarrow> Inl e
      | Inr (amb, h4) \<Rightarrow>
     (case Matrix2D_pow amb (Val (PyNum 2)) h4 of
        Inl e \<Rightarrow> Inl e
      | Inr (sq, h5) \<Rightarrow>
     (case Matrix2D_matmul apb (Matrix sq) h5 of
        Inl e \<Rightarrow> Inl e
      | Inr (result, h6) \<Rightarrow>
          Inr (result, h6,
               [''Result of (A + B) @ (A - B) ** 2:'', Matrix2D_str render result h6])))))))"

text \<open>The store of a program that has not created any array yet.\<close>

definition empty_heap :: "'a heap" where
  "empty_heap = \<lparr>objs = [], bufs = []\<rparr>"

section \<open>Observations on the store\<close>


definition valid_ref :: "'a heap \<Rightarrow> ref \<Rightarrow> bool" where
  "valid_ref h r \<longleftrightarrow>
     r < length (objs h) \<and> base (objs h ! r) < length (bufs h) \<and>
     length (bufs h ! base (objs h ! r)) = size_of (shape (objs h ! r))"




text \<open>The later store \<open>h'\<close> still holds every array object and every buffer of \<open>h\<close>, as it was.\<close>

definition unchanged :: "'a heap \<Rightarrow> 'a heap \<Rightarrow> bool" where
  "unchanged h h' \<longleftrightarrow>
     take (length (objs h)) (objs h') = objs h \<and> take (length (bufs h)) (bufs h') = bufs h"

text \<open>
  What a run returns, without the addresses: the exception, or the value of the wrapped array.
\<close>

definition outcome :: "error + (Matrix2D \<times> 'a heap) \<Rightarrow> error + 'a ndvalue" where
  "outcome res = (case res of Inl e \<Rightarrow> Inl e | Inr (m, h') \<Rightarrow> Inr (read_array h' (mat m)))"

text \<open>
  The constructor on array values: one row for rank 1, the array itself for rank 2. On the
  result of a NumPy computation a rank-0 value is a scalar and raises the \<open>TypeError\<close>.
\<close>

definition init_value :: "'a ndvalue \<Rightarrow> error + 'a ndvalue" where
  "init_value v =
     (if length (fst v) = 1 then Inr ([1, size_of (fst v) div 1], snd v)
      else if length (fst v) \<noteq> 2 then Inl (ValueError ''Only 1D or 2D matrices are allowed'')
      else Inr v)"

definition wrap_value :: "'a ndvalue \<Rightarrow> error + 'a ndvalue" where
  "wrap_value v =
     (if fst v = [] then Inl (TypeError ''Data must be a list or NumPy array'')
      else init_value v)"

text \<open>
  In-place writes by a caller that holds an array. \<open>arr.flat[i] = v\<close> stores an entry in
  the buffer; an index past the end raises \<open>IndexError\<close>. \<open>arr.shape = s\<close> replaces the
  shape of the array object; a shape of another size raises \<open>ValueError\<close>. An exception
  leaves the store as it was.
\<close>

definition ndarray_setitem :: "ref \<Rightarrow> nat \<Rightarrow> 'a \<Rightarrow> 'a heap \<Rightarrow> error + 'a heap" where
  "ndarray_setitem r i v h =
     (if i < length (bufs h ! base (objs h ! r))
      then Inr (h\<lparr>bufs := (bufs h)[base (objs h ! r) := (bufs h ! base (objs h ! r))[i := v]]\<rparr>)
      else Inl (IndexError ''index out of bounds''))"

definition ndarray_set_shape :: "ref \<Rightarrow> nat list \<Rightarrow> 'a heap \<Rightarrow> error + 'a heap" where
  "ndarray_set_shape r s h =
     (if size_of s = size_of (shape (objs h ! r))
      then Inr (h\<lparr>objs := (objs h)[r := (objs h ! r)\<lparr>shape := s\<rparr>]\<rparr>)
      else Inl (ValueError ''cannot reshape array''))"

section \<open>Reachable states\<close>


section \<open>The constructor on arrays and lists\<close>

lemma new_array_simps:
  "fst (new_array v h) = length (objs h)"
  "objs (snd (new_array v h)) = objs h @ [\<lparr>shape = fst v, base = length (bufs h)\<rparr>]"
  "bufs (snd (new_array v h)) = bufs h @ [snd v]"
  by (simp_all add: new_array_def)

lemma init_ndarray:
  "Matrix2D_init (Ndarray r) h =
     (if ndim (objs h ! r) = 1 then Inr (\<lparr>mat = length (objs h)\<rparr>, snd (reshape_row r h))
      else if ndim (objs h ! r) \<noteq> 2 then Inl (ValueError ''Only 1D or 2D matrices are allowed'')
      else Inr (\<lparr>mat = r\<rparr>, h))"
  by (simp add: Matrix2D_init_def to_array_def reshape_row_def)

lemma init_list:
  "Matrix2D_init (Val (PyList xs)) h =
     (case np_array (PyList xs) of
        Inl e \<Rightarrow> Inl e
      | Inr v \<Rightarrow> Matrix2D_init (Ndarray (length (objs h))) (snd (new_array v h)))"
  by (simp add: Matrix2D_init_def to_array_def new_array_def split: sum.splits)

lemma init_other:
  "Matrix2D_init (Val (PyNum v)) h = Inl (TypeError ''Data must be a list or NumPy array'')"
  "Matrix2D_init (Val (PyTuple xs)) h = Inl (TypeError ''Data must be a list or NumPy array'')"
  "Matrix2D_init (Matrix m) h = Inl (TypeError ''Data must be a list or NumPy array'')"
  "Matrix2D_init NoneObj h = Inl (TypeError ''Data must be a list or NumPy array'')"
  by (simp_all add: Matrix2D_init_def to_array_def)

lemma init_list_shape:
  assumes "np_shape (PyList xs) = Some s" "length s \<le> NPY_MAXDIMS"
  shows "Matrix2D_init (Val (PyList xs)) h =
           (if length s = 1
            then Inr (\<lparr>mat = Suc (length (objs h))\<rparr>,
                      snd (reshape_row (length (objs h)) (snd (new_array (s, np_flat (PyList xs)) h))))
            else if length s \<noteq> 2 then Inl (ValueError ''Only 1D or 2D matrices are allowed'')
            else Inr (\<lparr>mat = length (objs h)\<rparr>, snd (new_array (s, np_flat (PyList xs)) h)))"
  using assms by (simp add: init_list np_array_def init_ndarray new_array_simps ndim_def)

lemma init_list_ragged:
  assumes "np_shape (PyList xs) = None"
  shows "\<exists>msg. Matrix2D_init (Val (PyList xs)) h = Inl (ValueError msg)"
  using assms by (simp add: init_list np_array_def)

lemma init_list_deep:
  assumes "np_shape (PyList xs) = Some s" "length s > NPY_MAXDIMS"
  shows "\<exists>msg. Matrix2D_init (Val (PyList xs)) h = Inl (ValueError msg)"
  using assms by (simp add: init_list np_array_def)



lemma wrap_result_Inr:
  assumes "wrap_result res h = Inr (m, h')"
  shows "\<exists>v. res = Inr v \<and> fst v \<noteq> [] \<and>
             Matrix2D_init (Ndarray (length (objs h))) (snd (new_array v h)) = Inr (m, h')"
  using assms
  by (auto simp: wrap_result_def new_array_def init_other split: sum.splits if_splits)


section \<open>Shapes that \<open>np.array\<close> discovers\<close>

lemma seq_shape_all:
  assumes "ss \<noteq> []" "\<forall>x\<in>set ss. x = Some s"
  shows "seq_shape ss = Some (length ss # s)"
proof (cases ss)
  case Nil
  with assms show ?thesis by simp
next
  case (Cons a as)
  with assms show ?thesis by (auto simp: list_all_iff)
qed

lemma np_shape_ints: "np_shape (PyList (map PyNum vs)) = Some [length vs]"
proof (cases vs)
  case Nil
  then show ?thesis by simp
next
  case (Cons a as)
  then have "seq_shape (map np_shape (map PyNum vs)) = Some (length (map np_shape (map PyNum vs)) # [])"
    by (intro seq_shape_all) auto
  then show ?thesis by simp
qed

lemma np_shape_nested: "np_shape (nested n v) = Some (replicate n 1)"
  by (induction n) simp_all

lemma np_shape_ints_tuple: "np_shape (PyTuple (map PyNum vs)) = Some [length vs]"
  using np_shape_ints [of vs] by simp

lemma np_shape_rows:
  assumes "rows \<noteq> []"
    and "\<forall>row\<in>set rows. \<exists>vs. (row = PyList (map PyNum vs) \<or> row = PyTuple (map PyNum vs)) \<and> length vs = c"
  shows "np_shape (PyList rows) = Some [length rows, c]"
proof -
  have "\<forall>x\<in>set (map np_shape rows). x = Some [c]"
    using assms(2) by (auto simp: np_shape_ints np_shape_ints_tuple simp del: np_shape.simps)
  with assms(1) have "seq_shape (map np_shape rows) = Some (length (map np_shape rows) # [c])"
    by (intro seq_shape_all) auto
  then show ?thesis by simp
qed

lemma init_ndarray_shape1:
  assumes "shape (objs h ! r) = [n]"
  shows "\<exists>m h'. Matrix2D_init (Ndarray r) h = Inr (m, h') \<and> Matrix2D_shape m h' = [1, n]"
  using assms by (simp add: init_ndarray ndim_def reshape_row_def Matrix2D_shape_def size_of_def)

lemma init_ndarray_shape2:
  assumes "shape (objs h ! r) = [n, c]"
  shows "\<exists>m h'. Matrix2D_init (Ndarray r) h = Inr (m, h') \<and> Matrix2D_shape m h' = [n, c]"
  using assms by (simp add: init_ndarray ndim_def Matrix2D_shape_def)

lemma init_list_shape1:
  assumes "np_shape (PyList xs) = Some [n]"
  shows "\<exists>m h'. Matrix2D_init (Val (PyList xs)) h = Inr (m, h') \<and> Matrix2D_shape m h' = [1, n]"
  using assms
  by (simp add: init_list_shape NPY_MAXDIMS_def reshape_row_def Matrix2D_shape_def size_of_def
      new_array_simps nth_append)

lemma init_list_shape2:
  assumes "np_shape (PyList xs) = Some [n, c]"
  shows "\<exists>m h'. Matrix2D_init (Val (PyList xs)) h = Inr (m, h') \<and> Matrix2D_shape m h' = [n, c]"
  using assms by (simp add: init_list_shape NPY_MAXDIMS_def Matrix2D_shape_def new_array_simps)

section \<open>Allocation leaves the store as it was\<close>

lemma take_prefix_trans:
  assumes "take (length xs) ys = xs" "take (length ys) zs = ys"
  shows "take (length xs) zs = xs"
  using assms
  by (metis append_eq_conv_conj append_take_drop_id take_append length_take min.cobounded1
      take_all take_take min_def order_refl)

lemma unchanged_trans: "unchanged h h' \<Longrightarrow> unchanged h' h'' \<Longrightarrow> unchanged h h''"
  unfolding unchanged_def by (blast intro: take_prefix_trans)

lemma unchanged_new_array: "unchanged h (snd (new_array v h))"
  by (simp add: unchanged_def new_array_def)

lemma take_nth_eq:
  assumes "take (length xs) ys = xs" "i < length xs"
  shows "ys ! i = xs ! i"
  using assms by (metis nth_take)

lemma unchanged_read:
  assumes "unchanged h h'" "valid_ref h r"
  shows "read_array h' r = read_array h r"
proof -
  from assms have o: "objs h' ! r = objs h ! r"
    by (auto simp: unchanged_def valid_ref_def intro: take_nth_eq)
  from assms have "bufs h' ! base (objs h ! r) = bufs h ! base (objs h ! r)"
    by (auto simp: unchanged_def valid_ref_def intro: take_nth_eq)
  with o show ?thesis by (simp add: read_array_def)
qed

lemma init_ndarray_fresh:
  assumes "Matrix2D_init (Ndarray r) h = Inr (m, h')"
  shows "unchanged h h' \<and> bufs h' = bufs h \<and> base (objs h' ! mat m) = base (objs h ! r) \<and>
         (mat m = r \<or> length (objs h) \<le> mat m)"
  using assms
  by (auto simp: init_ndarray reshape_row_def unchanged_def split: if_splits)

lemma wrap_result_fresh:
  assumes "wrap_result res h = Inr (m, h')"
  shows "unchanged h h' \<and> length (objs h) \<le> mat m \<and> base (objs h' ! mat m) = length (bufs h)"
proof -
  from wrap_result_Inr [OF assms] obtain v where res: "res = Inr v"
    and i: "Matrix2D_init (Ndarray (length (objs h))) (snd (new_array v h)) = Inr (m, h')"
    by blast
  let ?h1 = "snd (new_array v h)"
  from init_ndarray_fresh [OF i]
  have u: "unchanged ?h1 h'" and b: "base (objs h' ! mat m) = base (objs ?h1 ! length (objs h))"
    and f: "mat m = length (objs h) \<or> length (objs ?h1) \<le> mat m"
    by simp_all
  from u unchanged_new_array [of h v] have "unchanged h h'" by (blast intro: unchanged_trans)
  moreover from b have "base (objs h' ! mat m) = length (bufs h)" by (simp add: new_array_simps)
  moreover from f have "length (objs h) \<le> mat m" by (auto simp: new_array_simps)
  ultimately show ?thesis by simp
qed

lemma add_result:
  "Matrix2D_add self other h = Inr (m, h') \<Longrightarrow> \<exists>res. wrap_result res h = Inr (m, h')"
  by (cases other; auto simp: Matrix2D_add_def)

lemma sub_result:
  "Matrix2D_sub self other h = Inr (m, h') \<Longrightarrow> \<exists>res. wrap_result res h = Inr (m, h')"
  by (cases other; auto simp: Matrix2D_sub_def)

lemma mul_result:
  "Matrix2D_mul self other h = Inr (m, h') \<Longrightarrow> \<exists>res. wrap_result res h = Inr (m, h')"
  by (cases other; auto simp: Matrix2D_mul_def)

lemma matmul_result:
  "Matrix2D_matmul self other h = Inr (m, h') \<Longrightarrow> \<exists>res. wrap_result res h = Inr (m, h')"
  by (cases other; auto simp: Matrix2D_matmul_def)

lemma pow_result:
  "Matrix2D_pow self other h = Inr (m, h') \<Longrightarrow> \<exists>res. wrap_result res h = Inr (m, h')"
  by (auto simp: Matrix2D_pow_def)

lemmas op_results = add_result sub_result mul_result matmul_result pow_result

lemma fresh_result:
  assumes "wrap_result res h = Inr (m, h')"
  shows "unchanged h h' \<and> length (objs h) \<le> mat m \<and> length (bufs h) \<le> base (objs h' ! mat m) \<and>
         (\<forall>r. valid_ref h r \<longrightarrow>
            read_array h' r = read_array h r \<and> mat m \<noteq> r \<and>
            base (objs h' ! mat m) \<noteq> base (objs h ! r))"
  using wrap_result_fresh [OF assms] unchanged_read [of h h']
  by (auto simp: valid_ref_def)







section \<open>Results as values\<close>

lemma read_new_array: "read_array (snd (new_array v h)) (length (objs h)) = v"
  by (simp add: read_array_def new_array_def)

lemma outcome_init_ndarray: "outcome (Matrix2D_init (Ndarray r) h) = init_value (read_array h r)"
  by (simp add: outcome_def init_ndarray init_value_def read_array_def reshape_row_def ndim_def)

lemma outcome_wrap:
  "outcome (wrap_result res h) = (case res of Inl e \<Rightarrow> Inl e | Inr v \<Rightarrow> wrap_value v)"
proof (cases res)
  case (Inl e)
  then show ?thesis by (simp add: wrap_result_def outcome_def)
next
  case (Inr v)
  show ?thesis
  proof (cases "fst v = []")
    case True
    with Inr show ?thesis by (simp add: wrap_result_def init_other outcome_def wrap_value_def)
  next
    case False
    with Inr
    have "wrap_result res h = Matrix2D_init (Ndarray (length (objs h))) (snd (new_array v h))"
      by (simp add: wrap_result_def new_array_def)
    with Inr False show ?thesis
      by (simp add: outcome_init_ndarray read_new_array wrap_value_def)
  qed
qed

lemma outcome_init_list:
  "outcome (Matrix2D_init (Val (PyList xs)) h) =
     (case np_array (PyList xs) of Inl e \<Rightarrow> Inl e | Inr v \<Rightarrow> init_value v)"
  by (cases "np_array (PyList xs)")
     (simp_all add: init_list outcome_init_ndarray read_new_array, simp add: outcome_def)

lemma outcome_Inr:
  "outcome res = Inr v \<longleftrightarrow> (\<exists>m h'. res = Inr (m, h') \<and> read_array h' (mat m) = v)"
  by (auto simp: outcome_def split: sum.splits)

lemma outcome_add:
  "outcome (Matrix2D_add self other h) =
     (case (case other of
              Matrix m \<Rightarrow> np_binop (+) (read_array h (mat self)) (read_array h (mat m))
            | _ \<Rightarrow> with_operand (np_binop (+)) (read_array h (mat self)) other h) of
        Inl e \<Rightarrow> Inl e | Inr v \<Rightarrow> wrap_value v)"
  by (cases other; simp add: Matrix2D_add_def outcome_wrap)

lemma outcome_sub:
  "outcome (Matrix2D_sub self other h) =
     (case (case other of
              Matrix m \<Rightarrow> np_binop (-) (read_array h (mat self)) (read_array h (mat m))
            | _ \<Rightarrow> with_operand (np_binop (-)) (read_array h (mat self)) other h) of
        Inl e \<Rightarrow> Inl e | Inr v \<Rightarrow> wrap_value v)"
  by (cases other; simp add: Matrix2D_sub_def outcome_wrap)

lemma outcome_mul:
  "outcome (Matrix2D_mul self other h) =
     (case (case other of
              Matrix m \<Rightarrow> np_binop (*) (read_array h (mat self)) (read_array h (mat m))
            | _ \<Rightarrow> with_operand (np_binop (*)) (read_array h (mat self)) other h) of
        Inl e \<Rightarrow> Inl e | Inr v \<Rightarrow> wrap_value v)"
  by (cases other; simp add: Matrix2D_mul_def outcome_wrap)

lemmas outcome_elementwise = outcome_add outcome_sub outcome_mul

lemma outcome_matmul:
  "outcome (Matrix2D_matmul self other h) =
     (case other of
        Matrix m \<Rightarrow> (case np_matmul (read_array h (mat self)) (read_array h (mat m)) of
                       Inl e \<Rightarrow> Inl e | Inr v \<Rightarrow> wrap_value v)
      | _ \<Rightarrow> Inl (TypeError ''Matrix multiplication requires another Matrix2D''))"
  by (cases other) (simp_all add: Matrix2D_matmul_def outcome_wrap, simp_all add: outcome_def)

lemma outcome_pow:
  "outcome (Matrix2D_pow self other h) =
     (case with_operand np_power (read_array h (mat self)) other h of
        Inl e \<Rightarrow> Inl e | Inr v \<Rightarrow> wrap_value v)"
  by (simp add: Matrix2D_pow_def outcome_wrap)

lemma wrap_value_rank2: "wrap_value ([r, c], xs) = Inr ([r, c], xs)"
  by (simp add: wrap_value_def init_value_def)

lemma valid_ref_read:
  assumes "valid_ref h r" "shape (objs h ! r) = s"
  shows "read_array h r = (s, snd (read_array h r))" "length (snd (read_array h r)) = size_of s"
  using assms by (simp_all add: valid_ref_def read_array_def)

lemma add_unchanged_read:
  assumes "valid_ref h r" "Matrix2D_add self other h = Inr (m, h')"
  shows "read_array h' r = read_array h r"
  using fresh_result add_result [OF assms(2)] assms(1) by blast

lemma matmul_fresh:
  assumes "Matrix2D_matmul self other h = Inr (m, h')"
  shows "length (objs h) \<le> mat m"
  using fresh_result matmul_result [OF assms] by blast

lemma read_setitem:
  assumes "valid_ref h r" "i < length (snd (read_array h r))"
  shows "\<exists>h'. ndarray_setitem r i v h = Inr h' \<and>
              read_array h' r = (shape (objs h ! r), (snd (read_array h r))[i := v])"
  using assms by (simp add: read_array_def ndarray_setitem_def valid_ref_def)

lemma setitem_bounds:
  assumes "valid_ref h r" "\<not> i < length (snd (read_array h r))"
  shows "\<exists>msg. ndarray_setitem r i v h = Inl (IndexError msg)"
  using assms by (simp add: read_array_def ndarray_setitem_def)

lemma read_set_shape:
  assumes "valid_ref h r" "size_of s = size_of (fst (read_array h r))"
  shows "\<exists>h'. ndarray_set_shape r s h = Inr h' \<and> read_array h' r = (s, snd (read_array h r))"
  using assms by (simp add: read_array_def ndarray_set_shape_def valid_ref_def)

lemma set_shape_size:
  assumes "size_of s \<noteq> size_of (fst (read_array h r))"
  shows "\<exists>msg. ndarray_set_shape r s h = Inl (ValueError msg)"
  using assms by (simp add: read_array_def ndarray_set_shape_def)

section \<open>Broadcasting on equal shapes and against a number\<close>

lemma concat_chunks:
  "length xs = t * n \<Longrightarrow> concat (map (\<lambda>k. take n (drop (k * n) xs)) [0..<t]) = xs"
proof (induction t arbitrary: xs)
  case 0
  then show ?case by simp
next
  case (Suc t)
  have "[0..<Suc t] = 0 # map Suc [0..<t]"
    by (simp add: upt_conv_Cons map_Suc_upt del: upt_Suc)
  then have "concat (map (\<lambda>k. take n (drop (k * n) xs)) [0..<Suc t])
      = take n xs @ concat (map (\<lambda>k. take n (drop (k * n) (drop n xs))) [0..<t])"
    by (simp add: comp_def add.commute del: upt_Suc)
  also have "concat (map (\<lambda>k. take n (drop (k * n) (drop n xs))) [0..<t]) = drop n xs"
    using Suc.prems by (intro Suc.IH) simp
  finally show ?case by simp
qed

lemma broadcast_to_same:
  "length xs = size_of s \<Longrightarrow> broadcast_to s s xs = xs"
proof (induction s arbitrary: xs)
  case Nil
  then show ?case by simp
next
  case (Cons a s)
  let ?n = "size_of s"
  from Cons.prems have len: "length xs = a * ?n" by (simp add: size_of_def)
  have "broadcast_to s s (take ?n (drop (k * ?n) xs)) = take ?n (drop (k * ?n) xs)" if "k < a" for k
  proof (rule Cons.IH)
    from that have "Suc k * ?n \<le> a * ?n" by (intro mult_le_mono1) simp
    with len show "length (take ?n (drop (k * ?n) xs)) = ?n" by simp
  qed
  then have m: "map (\<lambda>k. broadcast_to s s (take ?n (drop (k * ?n) xs))) [0..<a]
                  = map (\<lambda>k. take ?n (drop (k * ?n) xs)) [0..<a]"
    by simp
  have "broadcast_to (a # s) (a # s) xs
          = concat (map (\<lambda>k. broadcast_to s s (take ?n (drop (k * ?n) xs))) [0..<a])"
    by (simp add: Let_def)
  also have "\<dots> = xs" unfolding m by (rule concat_chunks [OF len])
  finally show ?case .
qed

lemma pad_shape_same: "pad_shape (length s) s = s"
  by (simp add: pad_shape_def)

lemma broadcast_dims_same: "broadcast_dims s s = Some s"
  by (induction s) (simp_all add: broadcast_dim_def)

lemma broadcast_shapes_same: "broadcast_shapes s s = Some s"
  by (simp add: broadcast_shapes_def pad_shape_same broadcast_dims_same)

lemma np_binop_same:
  assumes "length xs = size_of s" "length ys = size_of s"
  shows "np_binop f (s, xs) (s, ys) = Inr (s, map2 f xs ys)"
  using assms by (simp add: np_binop_def broadcast_shapes_same pad_shape_same broadcast_to_same)

lemma map2_add_sub:
  "length xs = length ys \<Longrightarrow> map2 (-) (map2 (+) xs ys) ys = (xs :: int64 list)"
  by (induction xs ys rule: list_induct2) simp_all

lemma int64_add_exact:
  fixes a b :: int64
  assumes "- (2 ^ 63) \<le> sint a + sint b \<and> sint a + sint b < 2 ^ 63"
  shows "sint (a + b) = sint a + sint b"
  using assms by (simp add: sint_word_ariths signed_take_bit_int_eq_self)

lemma index_bound:
  assumes "i < (r :: nat)" "j < c"
  shows "i * c + j < r * c"
proof -
  from assms(2) have "i * c + j < Suc i * c" by simp
  also from assms(1) have "Suc i * c \<le> r * c" by (intro mult_le_mono1) simp
  finally show ?thesis .
qed

lemma broadcast_to_scalar1: "broadcast_to [c] [1] [z] = replicate c z"
  by (cases "c = 1") (simp_all add: size_of_def)

lemma concat_replicate_replicate: "concat (replicate n (replicate c z)) = replicate (n * c) z"
  by (induction n) (simp_all add: replicate_add)

lemma broadcast_to_scalar2: "broadcast_to [n, c] [1, 1] [z] = replicate (n * c) z"
proof (cases "n = 1")
  case True
  have "broadcast_to [1, c] [1, 1] [z] = broadcast_to [c] [1] [z]"
    by (subst broadcast_to.simps(1)) (simp add: size_of_def Let_def del: broadcast_to.simps)
  also have "\<dots> = replicate c z" by (rule broadcast_to_scalar1)
  finally show ?thesis using True by (simp del: broadcast_to.simps)
next
  case False
  then show ?thesis
    using broadcast_to_scalar1 [of c z]
    by (simp add: concat_replicate_replicate size_of_def)
qed

lemma map2_replicate:
  "length xs = k \<Longrightarrow> map2 f xs (replicate k z) = map (\<lambda>x. f x z) xs"
  by (induction xs arbitrary: k) auto

lemma np_binop_scalar:
  assumes "length xs = n * c"
  shows "np_binop f ([n, c], xs) ([], [z]) = Inr ([n, c], map (\<lambda>x. f x z) xs)"
proof -
  have s: "broadcast_shapes [n, c] [] = Some [n, c]"
    by (simp add: broadcast_shapes_def pad_shape_def broadcast_dim_def)
  have "broadcast_to [n, c] [n, c] xs = xs"
    using assms by (intro broadcast_to_same) (simp add: size_of_def)
  then show ?thesis
    using assms broadcast_to_scalar2 [of n c z]
    by (simp add: np_binop_def s pad_shape_def map2_replicate numeral_2_eq_2 del: broadcast_to.simps)
qed

section \<open>A sum and the difference that follows it\<close>

lemma add_then_sub:
  fixes h :: "('a :: {plus, minus}) heap"
  assumes "valid_ref h (mat A)" and "valid_ref h (mat B)"
    and "shape (objs h ! mat A) = [r, c]" and "shape (objs h ! mat B) = [r, c]"
  shows "\<exists>C h1 D h2.
           Matrix2D_add A (Matrix B) h = Inr (C, h1) \<and>
           read_array h1 (mat C)
             = ([r, c], map2 (+) (snd (read_array h (mat A))) (snd (read_array h (mat B)))) \<and>
           Matrix2D_sub C (Matrix B) h1 = Inr (D, h2) \<and>
           read_array h2 (mat D)
             = ([r, c], map2 (-) (map2 (+) (snd (read_array h (mat A)))
                                           (snd (read_array h (mat B))))
                                 (snd (read_array h (mat B))))"
proof -
  let ?xs = "snd (read_array h (mat A))" and ?ys = "snd (read_array h (mat B))"
  from valid_ref_read [OF assms(1,3)]
  have a: "read_array h (mat A) = ([r, c], ?xs)" and la: "length ?xs = r * c"
    by (simp_all add: size_of_def)
  from valid_ref_read [OF assms(2,4)]
  have b: "read_array h (mat B) = ([r, c], ?ys)" and lb: "length ?ys = r * c"
    by (simp_all add: size_of_def)
  have "np_binop (+) ([r, c], ?xs) ([r, c], ?ys) = Inr ([r, c], map2 (+) ?xs ?ys)"
    using la lb by (intro np_binop_same) (simp_all add: size_of_def)
  then have "outcome (Matrix2D_add A (Matrix B) h) = Inr ([r, c], map2 (+) ?xs ?ys)"
    using a b by (simp add: outcome_add wrap_value_rank2)
  then obtain C h1 where add: "Matrix2D_add A (Matrix B) h = Inr (C, h1)"
    and c: "read_array h1 (mat C) = ([r, c], map2 (+) ?xs ?ys)"
    by (auto simp: outcome_Inr)
  from add_unchanged_read [OF assms(2) add] b
  have b1: "read_array h1 (mat B) = ([r, c], ?ys)" by simp
  have "np_binop (-) ([r, c], map2 (+) ?xs ?ys) ([r, c], ?ys)
          = Inr ([r, c], map2 (-) (map2 (+) ?xs ?ys) ?ys)"
    using la lb by (intro np_binop_same) (simp_all add: size_of_def)
  then have "outcome (Matrix2D_sub C (Matrix B) h1)
               = Inr ([r, c], map2 (-) (map2 (+) ?xs ?ys) ?ys)"
    using c b1 by (simp add: outcome_sub wrap_value_rank2)
  then obtain D h2 where sub: "Matrix2D_sub C (Matrix B) h1 = Inr (D, h2)"
    and d: "read_array h2 (mat D) = ([r, c], map2 (-) (map2 (+) ?xs ?ys) ?ys)"
    by (auto simp: outcome_Inr)
  from add c sub d show ?thesis by blast
qed

section \<open>The product of two matrices\<close>

lemma np_matmul_rank2:
  assumes "length xs = n * k" "length ys = k * p"
  shows "np_matmul ([n, k], xs) ([k, p], ys) = Inr ([n, p], matmul2 n k p xs ys)"
proof -
  have "broadcast_to [n, k] [n, k] xs = xs" "broadcast_to [k, p] [k, p] ys = ys"
    using assms by (intro broadcast_to_same; simp add: size_of_def)+
  then show ?thesis using assms
    by (simp add: np_matmul_def broadcast_shapes_def pad_shape_def size_of_def del: broadcast_to.simps)
qed

lemma concat_rows_nth:
  assumes "\<And>i. i < n \<Longrightarrow> length (f i) = p" "i < n" "j < p"
  shows "concat (map f [0..<n]) ! (i * p + j) = f i ! j"
  using assms
proof (induction n arbitrary: i)
  case 0
  then show ?case by simp
next
  case (Suc n)
  have len: "length (concat (map f [0..<n])) = n * p"
    using Suc.prems(1) by (induction n) simp_all
  show ?case
  proof (cases "i < n")
    case True
    then have "i * p + j < n * p"
      using Suc.prems(3) by (metis add.commute mult_Suc mult_le_mono1 Suc_leI add_less_cancel_left less_le_trans nat_add_left_cancel_less)
    with True Suc show ?thesis by (simp add: nth_append len)
  next
    case False
    with Suc.prems have "i = n" by simp
    then show ?thesis using Suc.prems by (simp add: nth_append len)
  qed
qed

lemma matmul2_length: "length (matmul2 n k p xs ys) = n * p"
  unfolding matmul2_def by (induction n) simp_all

lemma matmul2_nth:
  assumes "i < n" "j < p"
  shows "matmul2 n k p xs ys ! (i * p + j) = (\<Sum>l<k. xs ! (i * k + l) * ys ! (l * p + j))"
proof -
  have "matmul2 n k p xs ys ! (i * p + j)
      = map (\<lambda>j. sum_list (map (\<lambda>l. xs ! (i * k + l) * ys ! (l * p + j)) [0..<k])) [0..<p] ! j"
    unfolding matmul2_def using assms by (intro concat_rows_nth) simp_all
  also have "\<dots> = sum_list (map (\<lambda>l. xs ! (i * k + l) * ys ! (l * p + j)) [0..<k])"
    using assms by simp
  also have "\<dots> = (\<Sum>l<k. xs ! (i * k + l) * ys ! (l * p + j))"
    by (simp add: sum_list_sum_nth atLeast0LessThan)
  finally show ?thesis .
qed

section \<open>Arrays and the store stay well-formed\<close>






























section \<open>Properties of \<open>Matrix2D\<close>\<close>

text \<open>
  C1. A list of \<open>N\<close> numbers becomes one row: \<open>shape()\<close> is \<open>(1, N)\<close>. A non-empty list
  of rows (lists or tuples) of \<open>c\<close> numbers each keeps its shape \<open>(rows, c)\<close>. The same
  holds for an existing array of rank 1 or rank 2.
\<close>

theorem init_shape:
  "(\<exists>m h'. Matrix2D_init (Val (PyList (map PyNum vs))) h = Inr (m, h') \<and>
            Matrix2D_shape m h' = [1, length vs]) \<and>
   (rows \<noteq> [] \<and>
    (\<forall>row\<in>set rows. \<exists>ws. (row = PyList (map PyNum ws) \<or> row = PyTuple (map PyNum ws)) \<and>
                           length ws = c) \<longrightarrow>
      (\<exists>m h'. Matrix2D_init (Val (PyList rows)) h = Inr (m, h') \<and>
               Matrix2D_shape m h' = [length rows, c])) \<and>
   (shape (objs h ! r) = [n] \<longrightarrow>
      (\<exists>m h'. Matrix2D_init (Ndarray r) h = Inr (m, h') \<and> Matrix2D_shape m h' = [1, n])) \<and>
   (shape (objs h ! r) = [n, k] \<longrightarrow>
      (\<exists>m h'. Matrix2D_init (Ndarray r) h = Inr (m, h') \<and> Matrix2D_shape m h' = [n, k]))"
  using init_list_shape1 [OF np_shape_ints, of vs h] init_list_shape2 [OF np_shape_rows, of rows c h]
    init_ndarray_shape1 [of h r n] init_ndarray_shape2 [of h r n k]
  by blast

theorem init_shape_witness:
  "(\<exists>m h'. Matrix2D_init (Val (PyList [PyNum 5, PyNum (6 :: int64)])) empty_heap = Inr (m, h') \<and>
            Matrix2D_shape m h' = [1, 2]) \<and>
   (\<exists>m h'. Matrix2D_init (Val (PyList [PyList [PyNum 1, PyNum 2, PyNum (3 :: int64)],
                                        PyTuple [PyNum 4, PyNum 5, PyNum (6 :: int64)]])) empty_heap
              = Inr (m, h') \<and> Matrix2D_shape m h' = [2, 3]) \<and>
   (\<exists>m h'. Matrix2D_init (Ndarray 0)
              \<lparr>objs = [\<lparr>shape = [3], base = 0\<rparr>, \<lparr>shape = [2, 2], base = 1\<rparr>],
               bufs = [[7, 8, 9], [1, 2, 3, 4 :: int64]]\<rparr> = Inr (m, h') \<and> Matrix2D_shape m h' = [1, 3]) \<and>
   (\<exists>m h'. Matrix2D_init (Ndarray 1)
              \<lparr>objs = [\<lparr>shape = [3], base = 0\<rparr>, \<lparr>shape = [2, 2], base = 1\<rparr>],
               bufs = [[7, 8, 9], [1, 2, 3, 4 :: int64]]\<rparr> = Inr (m, h') \<and> Matrix2D_shape m h' = [2, 2])"
proof -
  let ?H = "\<lparr>objs = [\<lparr>shape = [3], base = 0\<rparr>, \<lparr>shape = [2, 2], base = 1\<rparr>],
             bufs = [[7, 8, 9], [1, 2, 3, 4 :: int64]]\<rparr>"
  let ?r1 = "PyList [PyNum 1, PyNum 2, PyNum (3 :: int64)]"
  let ?r2 = "PyTuple [PyNum 4, PyNum 5, PyNum (6 :: int64)]"
  have a: "\<exists>ws. (?r1 = PyList (map PyNum ws) \<or> ?r1 = PyTuple (map PyNum ws)) \<and> length ws = 3"
    by (rule exI [of _ "[1, 2, 3 :: int64]"]) simp
  have b: "\<exists>ws. (?r2 = PyList (map PyNum ws) \<or> ?r2 = PyTuple (map PyNum ws)) \<and> length ws = 3"
    by (rule exI [of _ "[4, 5, 6 :: int64]"]) simp
  from a b have rows: "[?r1, ?r2] \<noteq> [] \<and>
      (\<forall>row\<in>set [?r1, ?r2]. \<exists>ws. (row = PyList (map PyNum ws) \<or> row = PyTuple (map PyNum ws)) \<and>
                                  length ws = 3)"
    by simp
  from init_shape [of "[]" empty_heap "[?r1, ?r2]" 3 0 0 0] rows
  have "\<exists>m h'. Matrix2D_init (Val (PyList [?r1, ?r2])) empty_heap = Inr (m, h') \<and>
               Matrix2D_shape m h' = [length [?r1, ?r2], 3]"
    by blast
  then have 1: "\<exists>m h'. Matrix2D_init (Val (PyList [?r1, ?r2])) empty_heap = Inr (m, h') \<and>
                       Matrix2D_shape m h' = [2, 3]"
    by (simp add: numeral_2_eq_2)
  have "shape (objs ?H ! 0) = [3]" by simp
  with init_shape [of "[]" ?H "[]" 0 0 3 0]
  have 2: "\<exists>m h'. Matrix2D_init (Ndarray 0) ?H = Inr (m, h') \<and> Matrix2D_shape m h' = [1, 3]"
    by blast
  have "shape (objs ?H ! 1) = [2, 2]" by simp
  with init_shape [of "[]" ?H "[]" 0 1 2 2]
  have 3: "\<exists>m h'. Matrix2D_init (Ndarray 1) ?H = Inr (m, h') \<and> Matrix2D_shape m h' = [2, 2]"
    by blast
  from init_shape [of "[5, 6 :: int64]" empty_heap "[]" 0 0 0 0]
  have 0: "\<exists>m h'. Matrix2D_init (Val (PyList [PyNum 5, PyNum (6 :: int64)])) empty_heap = Inr (m, h') \<and>
                  Matrix2D_shape m h' = [1, 2]"
    by (simp add: numeral_2_eq_2)
  from 0 1 2 3 show ?thesis by (intro conjI)
qed

text \<open>
  C2. From any store, \<open>demo_complex_expression\<close> returns an instance whose array is
  \<open>[[128, 128], [168, 168]]\<close>, and prints the header and that array.
\<close>

theorem demo_result:
  "\<exists>m h'. demo_complex_expression render h
             = Inr (m, h', [''Result of (A + B) @ (A - B) ** 2:'',
                            render ([2, 2], [128, 128, 168, 168])]) \<and>
          read_array h' (mat m) = ([2, 2], [128, 128, 168, 168])"
  apply (simp add: demo_complex_expression_def Matrix2D_init_def to_array_def np_array_def
      new_array_def reshape_row_def ndim_def size_of_def Matrix2D_add_def Matrix2D_sub_def
      Matrix2D_pow_def Matrix2D_matmul_def wrap_result_def read_array_def np_binop_def
      np_power_def np_matmul_def with_operand_def broadcast_shapes_def pad_shape_def
      broadcast_dim_def matmul2_def Matrix2D_str_def nth_append NPY_MAXDIMS_def)
  apply (simp add: numeral_2_eq_2)
  done

text \<open>
  C3. The round trip fails for \<open>float64\<close> entries, and by more than any tolerance: with
  \<open>A = [[1.0]]\<close> and \<open>B = [[1e16]]\<close> (\<open>1e16 = 152587890625 * 2 ^ 16\<close>) the sum
  \<open>1.0 + 1e16\<close> rounds to \<open>1e16\<close>, so \<open>(A + B) - B\<close> is \<open>[[0.0]]\<close> where \<open>A\<close> is
  \<open>[[1.0]]\<close>.
\<close>

theorem add_sub_float_counterexample:
  "Matrix2D_init (Val (PyList [PyList [PyNum (Finite 1 0)]])) \<lparr>objs = [], bufs = []\<rparr>
     = Inr (\<lparr>mat = 0\<rparr>, \<lparr>objs = [\<lparr>shape = [1, 1], base = 0\<rparr>], bufs = [[Finite 1 0]]\<rparr>) \<and>
   Matrix2D_init (Val (PyList [PyList [PyNum (Finite 152587890625 16)]]))
       \<lparr>objs = [\<lparr>shape = [1, 1], base = 0\<rparr>], bufs = [[Finite 1 0]]\<rparr>
     = Inr (\<lparr>mat = 1\<rparr>,
            \<lparr>objs = [\<lparr>shape = [1, 1], base = 0\<rparr>, \<lparr>shape = [1, 1], base = 1\<rparr>],
             bufs = [[Finite 1 0], [Finite 152587890625 16]]\<rparr>) \<and>
   Matrix2D_add \<lparr>mat = 0\<rparr> (Matrix \<lparr>mat = 1\<rparr>)
       \<lparr>objs = [\<lparr>shape = [1, 1], base = 0\<rparr>, \<lparr>shape = [1, 1], base = 1\<rparr>],
        bufs = [[Finite 1 0], [Finite 152587890625 16]]\<rparr>
     = Inr (\<lparr>mat = 2\<rparr>,
            \<lparr>objs = [\<lparr>shape = [1, 1], base = 0\<rparr>, \<lparr>shape = [1, 1], base = 1\<rparr>,
                     \<lparr>shape = [1, 1], base = 2\<rparr>],
             bufs = [[Finite 1 0], [Finite 152587890625 16], [Finite 152587890625 16]]\<rparr>) \<and>
   Matrix2D_sub \<lparr>mat = 2\<rparr> (Matrix \<lparr>mat = 1\<rparr>)
       \<lparr>objs = [\<lparr>shape = [1, 1], base = 0\<rparr>, \<lparr>shape = [1, 1], base = 1\<rparr>,
                \<lparr>shape = [1, 1], base = 2\<rparr>],
        bufs = [[Finite 1 0], [Finite 152587890625 16], [Finite 152587890625 16]]\<rparr>
     = Inr (\<lparr>mat = 3\<rparr>,
            \<lparr>objs = [\<lparr>shape = [1, 1], base = 0\<rparr>, \<lparr>shape = [1, 1], base = 1\<rparr>,
                     \<lparr>shape = [1, 1], base = 2\<rparr>, \<lparr>shape = [1, 1], base = 3\<rparr>],
             bufs = [[Finite 1 0], [Finite 152587890625 16], [Finite 152587890625 16],
                     [Finite 0 0]]\<rparr>) \<and>
   Finite 0 0 \<noteq> Finite 1 0"
  by code_simp

text \<open>
  C3, amended. For two matrices of the same shape \<open>(r, c)\<close>, \<open>A + B\<close> succeeds and its
  entry at \<open>(i, j)\<close> is the sum of the two entries there in the arithmetic of the entry
  type, and \<open>(A + B) - B\<close> succeeds, has the same shape, and its entry at \<open>(i, j)\<close> is
  \<open>(a + b) - b\<close> in that arithmetic (for \<open>float64\<close>, each operation rounded). For
  \<open>int64\<close> entries the sum is the integer sum whenever that fits in 64 bits and wraps
  around otherwise, and \<open>(A + B) - B\<close> holds exactly the shape and the entries of \<open>A\<close>
  in either case.
\<close>

theorem add_sub_roundtrip:
  fixes h :: "('a :: {plus, minus}) heap" and g :: "int64 heap"
  shows
  "(valid_ref h (mat A) \<and> valid_ref h (mat B) \<and>
    shape (objs h ! mat A) = [r, c] \<and> shape (objs h ! mat B) = [r, c] \<longrightarrow>
      (\<exists>C h1 D h2.
         Matrix2D_add A (Matrix B) h = Inr (C, h1) \<and>
         Matrix2D_shape C h1 = [r, c] \<and>
         length (snd (read_array h1 (mat C))) = r * c \<and>
         (\<forall>i<r. \<forall>j<c. snd (read_array h1 (mat C)) ! (i * c + j)
                         = snd (read_array h (mat A)) ! (i * c + j)
                           + snd (read_array h (mat B)) ! (i * c + j)) \<and>
         Matrix2D_sub C (Matrix B) h1 = Inr (D, h2) \<and>
         Matrix2D_shape D h2 = [r, c] \<and>
         length (snd (read_array h2 (mat D))) = r * c \<and>
         (\<forall>i<r. \<forall>j<c. snd (read_array h2 (mat D)) ! (i * c + j)
                         = (snd (read_array h (mat A)) ! (i * c + j)
                            + snd (read_array h (mat B)) ! (i * c + j))
                           - snd (read_array h (mat B)) ! (i * c + j)))) \<and>
   (valid_ref g (mat P) \<and> valid_ref g (mat Q) \<and>
    shape (objs g ! mat P) = [n, k] \<and> shape (objs g ! mat Q) = [n, k] \<longrightarrow>
      (\<exists>C g1 D g2.
         Matrix2D_add P (Matrix Q) g = Inr (C, g1) \<and>
         Matrix2D_shape C g1 = [n, k] \<and>
         length (snd (read_array g1 (mat C))) = n * k \<and>
         (\<forall>i<n. \<forall>j<k. snd (read_array g1 (mat C)) ! (i * k + j)
                         = snd (read_array g (mat P)) ! (i * k + j)
                           + snd (read_array g (mat Q)) ! (i * k + j)) \<and>
         (\<forall>i<n. \<forall>j<k.
            - (2 ^ 63) \<le> sint (snd (read_array g (mat P)) ! (i * k + j))
                          + sint (snd (read_array g (mat Q)) ! (i * k + j)) \<and>
            sint (snd (read_array g (mat P)) ! (i * k + j))
              + sint (snd (read_array g (mat Q)) ! (i * k + j)) < 2 ^ 63 \<longrightarrow>
            sint (snd (read_array g1 (mat C)) ! (i * k + j))
              = sint (snd (read_array g (mat P)) ! (i * k + j))
                + sint (snd (read_array g (mat Q)) ! (i * k + j))) \<and>
         Matrix2D_sub C (Matrix Q) g1 = Inr (D, g2) \<and>
         read_array g2 (mat D) = read_array g (mat P)))"
proof (intro conjI impI)
  assume asm: "valid_ref h (mat A) \<and> valid_ref h (mat B) \<and>
               shape (objs h ! mat A) = [r, c] \<and> shape (objs h ! mat B) = [r, c]"
  let ?xs = "snd (read_array h (mat A))" and ?ys = "snd (read_array h (mat B))"
  from asm have v: "valid_ref h (mat A)" "valid_ref h (mat B)"
    and s: "shape (objs h ! mat A) = [r, c]" "shape (objs h ! mat B) = [r, c]" by simp_all
  from valid_ref_read(2) [OF v(1) s(1)] have la: "length ?xs = r * c" by (simp add: size_of_def)
  from valid_ref_read(2) [OF v(2) s(2)] have lb: "length ?ys = r * c" by (simp add: size_of_def)
  from add_then_sub [OF v s]
  obtain C h1 D h2 where add: "Matrix2D_add A (Matrix B) h = Inr (C, h1)"
    and c: "read_array h1 (mat C) = ([r, c], map2 (+) ?xs ?ys)"
    and sub: "Matrix2D_sub C (Matrix B) h1 = Inr (D, h2)"
    and d: "read_array h2 (mat D) = ([r, c], map2 (-) (map2 (+) ?xs ?ys) ?ys)"
    by blast
  have shc: "Matrix2D_shape C h1 = [r, c]"
    using c by (simp add: Matrix2D_shape_def read_array_def)
  have shd: "Matrix2D_shape D h2 = [r, c]"
    using d by (simp add: Matrix2D_shape_def read_array_def)
  have lc: "length (snd (read_array h1 (mat C))) = r * c" using c la lb by simp
  have ld: "length (snd (read_array h2 (mat D))) = r * c" using d la lb by simp
  have ec: "snd (read_array h1 (mat C)) ! (i * c + j) = ?xs ! (i * c + j) + ?ys ! (i * c + j)"
    if "i < r" "j < c" for i j
    using index_bound [OF that] c la lb by simp
  have ed: "snd (read_array h2 (mat D)) ! (i * c + j)
              = (?xs ! (i * c + j) + ?ys ! (i * c + j)) - ?ys ! (i * c + j)"
    if "i < r" "j < c" for i j
    using index_bound [OF that] d la lb by simp
  from add shc lc ec sub shd ld ed
  show "\<exists>C h1 D h2.
         Matrix2D_add A (Matrix B) h = Inr (C, h1) \<and>
         Matrix2D_shape C h1 = [r, c] \<and>
         length (snd (read_array h1 (mat C))) = r * c \<and>
         (\<forall>i<r. \<forall>j<c. snd (read_array h1 (mat C)) ! (i * c + j)
                         = ?xs ! (i * c + j) + ?ys ! (i * c + j)) \<and>
         Matrix2D_sub C (Matrix B) h1 = Inr (D, h2) \<and>
         Matrix2D_shape D h2 = [r, c] \<and>
         length (snd (read_array h2 (mat D))) = r * c \<and>
         (\<forall>i<r. \<forall>j<c. snd (read_array h2 (mat D)) ! (i * c + j)
                         = (?xs ! (i * c + j) + ?ys ! (i * c + j)) - ?ys ! (i * c + j))"
    by blast
next
  assume asm: "valid_ref g (mat P) \<and> valid_ref g (mat Q) \<and>
               shape (objs g ! mat P) = [n, k] \<and> shape (objs g ! mat Q) = [n, k]"
  let ?xs = "snd (read_array g (mat P))" and ?ys = "snd (read_array g (mat Q))"
  from asm have v: "valid_ref g (mat P)" "valid_ref g (mat Q)"
    and s: "shape (objs g ! mat P) = [n, k]" "shape (objs g ! mat Q) = [n, k]" by simp_all
  from valid_ref_read [OF v(1) s(1)]
  have a: "read_array g (mat P) = ([n, k], ?xs)" and la: "length ?xs = n * k"
    by (simp_all add: size_of_def)
  from valid_ref_read(2) [OF v(2) s(2)] have lb: "length ?ys = n * k" by (simp add: size_of_def)
  have rt: "map2 (-) (map2 (+) ?xs ?ys) ?ys = ?xs"
    using la lb by (intro map2_add_sub) simp
  from add_then_sub [OF v s]
  obtain C g1 D g2 where add: "Matrix2D_add P (Matrix Q) g = Inr (C, g1)"
    and c: "read_array g1 (mat C) = ([n, k], map2 (+) ?xs ?ys)"
    and sub: "Matrix2D_sub C (Matrix Q) g1 = Inr (D, g2)"
    and d: "read_array g2 (mat D) = ([n, k], ?xs)"
    unfolding rt by blast
  have sh: "Matrix2D_shape C g1 = [n, k]"
    using c by (simp add: Matrix2D_shape_def read_array_def)
  have len: "length (snd (read_array g1 (mat C))) = n * k"
    using c la lb by simp
  have ent: "snd (read_array g1 (mat C)) ! (i * k + j) = ?xs ! (i * k + j) + ?ys ! (i * k + j)"
    if "i < n" "j < k" for i j
    using index_bound [OF that] c la lb by simp
  have ex: "sint (snd (read_array g1 (mat C)) ! (i * k + j))
              = sint (?xs ! (i * k + j)) + sint (?ys ! (i * k + j))"
    if "i < n" "j < k"
      and "- (2 ^ 63) \<le> sint (?xs ! (i * k + j)) + sint (?ys ! (i * k + j)) \<and>
           sint (?xs ! (i * k + j)) + sint (?ys ! (i * k + j)) < 2 ^ 63" for i j
    using that(3) unfolding ent [OF that(1,2)] by (rule int64_add_exact)
  from add sh len ent ex sub d a
  show "\<exists>C g1 D g2.
         Matrix2D_add P (Matrix Q) g = Inr (C, g1) \<and>
         Matrix2D_shape C g1 = [n, k] \<and>
         length (snd (read_array g1 (mat C))) = n * k \<and>
         (\<forall>i<n. \<forall>j<k. snd (read_array g1 (mat C)) ! (i * k + j)
                         = ?xs ! (i * k + j) + ?ys ! (i * k + j)) \<and>
         (\<forall>i<n. \<forall>j<k.
            - (2 ^ 63) \<le> sint (?xs ! (i * k + j)) + sint (?ys ! (i * k + j)) \<and>
            sint (?xs ! (i * k + j)) + sint (?ys ! (i * k + j)) < 2 ^ 63 \<longrightarrow>
            sint (snd (read_array g1 (mat C)) ! (i * k + j))
              = sint (?xs ! (i * k + j)) + sint (?ys ! (i * k + j))) \<and>
         Matrix2D_sub C (Matrix Q) g1 = Inr (D, g2) \<and>
         read_array g2 (mat D) = read_array g (mat P)"
    by auto
qed

theorem add_sub_roundtrip_witness:
  "valid_ref \<lparr>objs = [\<lparr>shape = [1, 2], base = 0\<rparr>, \<lparr>shape = [1, 2], base = 1\<rparr>],
              bufs = [[Finite 1 0, Finite 3 (- 1)], [Finite 1 (- 1), Finite 1 1]]\<rparr> 0 \<and>
   valid_ref \<lparr>objs = [\<lparr>shape = [1, 2], base = 0\<rparr>, \<lparr>shape = [1, 2], base = 1\<rparr>],
              bufs = [[Finite 1 0, Finite 3 (- 1)], [Finite 1 (- 1), Finite 1 1]]\<rparr> 1 \<and>
   (\<exists>C h1 D h2.
      Matrix2D_add \<lparr>mat = 0\<rparr> (Matrix \<lparr>mat = 1\<rparr>)
        \<lparr>objs = [\<lparr>shape = [1, 2], base = 0\<rparr>, \<lparr>shape = [1, 2], base = 1\<rparr>],
         bufs = [[Finite 1 0, Finite 3 (- 1)], [Finite 1 (- 1), Finite 1 1]]\<rparr> = Inr (C, h1) \<and>
      Matrix2D_shape C h1 = [1, 2] \<and>
      snd (read_array h1 (mat C)) ! 1 = Finite 7 (- 1) \<and>
      Matrix2D_sub C (Matrix \<lparr>mat = 1\<rparr>) h1 = Inr (D, h2) \<and>
      Matrix2D_shape D h2 = [1, 2] \<and>
      snd (read_array h2 (mat D)) ! 1 = Finite 3 (- 1)) \<and>
   valid_ref \<lparr>objs = [\<lparr>shape = [2, 2], base = 0\<rparr>, \<lparr>shape = [2, 2], base = 1\<rparr>],
              bufs = [[1, 2, 3, 4], [10, 20, 30, 40 :: int64]]\<rparr> 0 \<and>
   valid_ref \<lparr>objs = [\<lparr>shape = [2, 2], base = 0\<rparr>, \<lparr>shape = [2, 2], base = 1\<rparr>],
              bufs = [[1, 2, 3, 4], [10, 20, 30, 40 :: int64]]\<rparr> 1 \<and>
   (\<exists>C h1 D h2.
      Matrix2D_add \<lparr>mat = 0\<rparr> (Matrix \<lparr>mat = 1\<rparr>)
        \<lparr>objs = [\<lparr>shape = [2, 2], base = 0\<rparr>, \<lparr>shape = [2, 2], base = 1\<rparr>],
         bufs = [[1, 2, 3, 4], [10, 20, 30, 40 :: int64]]\<rparr> = Inr (C, h1) \<and>
      Matrix2D_shape C h1 = [2, 2] \<and>
      snd (read_array h1 (mat C)) ! 3 = 44 \<and>
      sint (snd (read_array h1 (mat C)) ! 3) = 44 \<and>
      Matrix2D_sub C (Matrix \<lparr>mat = 1\<rparr>) h1 = Inr (D, h2) \<and>
      read_array h2 (mat D) = ([2, 2], [1, 2, 3, 4]))"
proof -
  let ?F = "\<lparr>objs = [\<lparr>shape = [1, 2], base = 0\<rparr>, \<lparr>shape = [1, 2], base = 1\<rparr>],
             bufs = [[Finite 1 0, Finite 3 (- 1)], [Finite 1 (- 1), Finite 1 1]]\<rparr>"
  let ?H = "\<lparr>objs = [\<lparr>shape = [2, 2], base = 0\<rparr>, \<lparr>shape = [2, 2], base = 1\<rparr>],
             bufs = [[1, 2, 3, 4], [10, 20, 30, 40 :: int64]]\<rparr>"
  let ?A = "\<lparr>mat = 0\<rparr>" and ?B = "\<lparr>mat = 1\<rparr>"
  note th = add_sub_roundtrip [of ?F ?A ?B 1 2 ?H ?A ?B 2 2]
  have f0: "valid_ref ?F 0" and f1: "valid_ref ?F 1"
    by (simp_all add: valid_ref_def size_of_def)
  have fh: "valid_ref ?F (mat ?A) \<and> valid_ref ?F (mat ?B) \<and>
            shape (objs ?F ! mat ?A) = [1, 2] \<and> shape (objs ?F ! mat ?B) = [1, 2]"
    by (simp add: valid_ref_def size_of_def)
  have fa: "snd (read_array ?F (mat ?A)) = [Finite 1 0, Finite 3 (- 1)]"
    and fb: "snd (read_array ?F (mat ?B)) = [Finite 1 (- 1), Finite 1 1]"
    by (simp_all add: read_array_def)
  have s1: "Finite 3 (- 1) + Finite 1 1 = Finite 7 (- 1)" by code_simp
  have s2: "Finite 7 (- 1) - Finite 1 1 = Finite 3 (- 1)" by code_simp
  have ix0: "(0 :: nat) < 1" "(1 :: nat) < 2" by simp_all
  from th [THEN conjunct1, rule_format, OF fh, unfolded fa fb]
  obtain C h1 D h2 where add: "Matrix2D_add ?A (Matrix ?B) ?F = Inr (C, h1)"
    and shc: "Matrix2D_shape C h1 = [1, 2]"
    and ec: "\<forall>i<1. \<forall>j<2. snd (read_array h1 (mat C)) ! (i * 2 + j)
               = [Finite 1 0, Finite 3 (- 1)] ! (i * 2 + j)
                 + [Finite 1 (- 1), Finite 1 1] ! (i * 2 + j)"
    and sub: "Matrix2D_sub C (Matrix ?B) h1 = Inr (D, h2)"
    and shd: "Matrix2D_shape D h2 = [1, 2]"
    and ed: "\<forall>i<1. \<forall>j<2. snd (read_array h2 (mat D)) ! (i * 2 + j)
               = ([Finite 1 0, Finite 3 (- 1)] ! (i * 2 + j)
                  + [Finite 1 (- 1), Finite 1 1] ! (i * 2 + j))
                 - [Finite 1 (- 1), Finite 1 1] ! (i * 2 + j)"
    by (elim exE conjE) (rule that; assumption)
  from ec [rule_format, OF ix0] have c1: "snd (read_array h1 (mat C)) ! 1 = Finite 7 (- 1)"
    by (simp add: s1)
  from ed [rule_format, OF ix0] have d1: "snd (read_array h2 (mat D)) ! 1 = Finite 3 (- 1)"
    by (simp add: s1 s2)
  from add shc c1 sub shd d1
  have fl: "\<exists>C h1 D h2.
      Matrix2D_add ?A (Matrix ?B) ?F = Inr (C, h1) \<and>
      Matrix2D_shape C h1 = [1, 2] \<and>
      snd (read_array h1 (mat C)) ! 1 = Finite 7 (- 1) \<and>
      Matrix2D_sub C (Matrix ?B) h1 = Inr (D, h2) \<and>
      Matrix2D_shape D h2 = [1, 2] \<and>
      snd (read_array h2 (mat D)) ! 1 = Finite 3 (- 1)"
    by blast
  have v0: "valid_ref ?H 0" and v1: "valid_ref ?H 1"
    by (simp_all add: valid_ref_def size_of_def)
  have ih: "valid_ref ?H (mat ?A) \<and> valid_ref ?H (mat ?B) \<and>
            shape (objs ?H ! mat ?A) = [2, 2] \<and> shape (objs ?H ! mat ?B) = [2, 2]"
    by (simp add: valid_ref_def size_of_def)
  have rd: "read_array ?H (mat ?A) = ([2, 2], [1, 2, 3, 4])"
    by (simp add: read_array_def)
  have rb: "read_array ?H (mat ?B) = ([2, 2], [10, 20, 30, 40])"
    by (simp add: read_array_def)
  have ix: "(1 :: nat) < 2" "(1 :: nat) * 2 + 1 = 3" by simp_all
  have rg: "- (2 ^ 63) \<le> sint (4 :: int64) + sint (40 :: int64) \<and>
            sint (4 :: int64) + sint (40 :: int64) < 2 ^ 63"
    by simp
  from th [THEN conjunct2, rule_format, OF ih, unfolded rd rb]
  obtain C' g1 D' g2 where add': "Matrix2D_add ?A (Matrix ?B) ?H = Inr (C', g1)"
    and sh: "Matrix2D_shape C' g1 = [2, 2]"
    and ent: "\<forall>i<2. \<forall>j<2. snd (read_array g1 (mat C')) ! (i * 2 + j)
                = snd ([2, 2 :: nat], [1, 2, 3, 4 :: int64]) ! (i * 2 + j)
                  + snd ([2, 2 :: nat], [10, 20, 30, 40 :: int64]) ! (i * 2 + j)"
    and ex: "\<forall>i<2. \<forall>j<2.
                - (2 ^ 63) \<le> sint (snd ([2, 2 :: nat], [1, 2, 3, 4 :: int64]) ! (i * 2 + j))
                              + sint (snd ([2, 2 :: nat], [10, 20, 30, 40 :: int64]) ! (i * 2 + j)) \<and>
                sint (snd ([2, 2 :: nat], [1, 2, 3, 4 :: int64]) ! (i * 2 + j))
                  + sint (snd ([2, 2 :: nat], [10, 20, 30, 40 :: int64]) ! (i * 2 + j)) < 2 ^ 63 \<longrightarrow>
                sint (snd (read_array g1 (mat C')) ! (i * 2 + j))
                  = sint (snd ([2, 2 :: nat], [1, 2, 3, 4 :: int64]) ! (i * 2 + j))
                    + sint (snd ([2, 2 :: nat], [10, 20, 30, 40 :: int64]) ! (i * 2 + j))"
    and sub': "Matrix2D_sub C' (Matrix ?B) g1 = Inr (D', g2)"
    and rt: "read_array g2 (mat D') = ([2, 2], [1, 2, 3, 4])"
    by (elim exE conjE) (rule that; assumption)
  from ent [rule_format, OF ix(1) ix(1)] have e3: "snd (read_array g1 (mat C')) ! 3 = 44"
    by (simp add: numeral_3_eq_3)
  from ex [rule_format, OF ix(1) ix(1)] rg have s3: "sint (snd (read_array g1 (mat C')) ! 3) = 44"
    by (simp add: numeral_3_eq_3)
  from add' sh e3 s3 sub' rt
  have il: "\<exists>C h1 D h2.
      Matrix2D_add ?A (Matrix ?B) ?H = Inr (C, h1) \<and>
      Matrix2D_shape C h1 = [2, 2] \<and>
      snd (read_array h1 (mat C)) ! 3 = 44 \<and>
      sint (snd (read_array h1 (mat C)) ! 3) = 44 \<and>
      Matrix2D_sub C (Matrix ?B) h1 = Inr (D, h2) \<and>
      read_array h2 (mat D) = ([2, 2], [1, 2, 3, 4])"
    by blast
  from f0 f1 fl v0 v1 il show ?thesis by (intro conjI)
qed

text \<open>
  C4. \<open>@\<close> with a second operand that is not a \<open>Matrix2D\<close> (a number, a list or tuple, a
  raw array, any other object) raises the \<open>TypeError\<close>. With a \<open>Matrix2D\<close> of shape
  \<open>(k, p)\<close> on an \<open>(n, k)\<close> matrix it returns an instance on a new array of shape
  \<open>(n, p)\<close> whose entry at \<open>(i, j)\<close> is the sum over \<open>l\<close> of \<open>self[i, l] * other[l, j]\<close>.
\<close>

theorem matmul_contract:
  "((\<forall>m. other \<noteq> Matrix m) \<longrightarrow>
      Matrix2D_matmul self other h
        = Inl (TypeError ''Matrix multiplication requires another Matrix2D'')) \<and>
   (valid_ref h (mat self) \<and> valid_ref h (mat m) \<and>
    shape (objs h ! mat self) = [n, k] \<and> shape (objs h ! mat m) = [k, p] \<longrightarrow>
      (\<exists>res h'. Matrix2D_matmul self (Matrix m) h = Inr (res, h') \<and>
                 length (objs h) \<le> mat res \<and>
                 Matrix2D_shape res h' = [n, p] \<and>
                 length (snd (read_array h' (mat res))) = n * p \<and>
                 (\<forall>i<n. \<forall>j<p. snd (read_array h' (mat res)) ! (i * p + j)
                                 = (\<Sum>l<k. snd (read_array h (mat self)) ! (i * k + l)
                                            * snd (read_array h (mat m)) ! (l * p + j)))))"
proof (intro conjI impI)
  assume "\<forall>m. other \<noteq> Matrix m"
  then show "Matrix2D_matmul self other h
               = Inl (TypeError ''Matrix multiplication requires another Matrix2D'')"
    by (cases other) (simp_all add: Matrix2D_matmul_def)
next
  assume asm: "valid_ref h (mat self) \<and> valid_ref h (mat m) \<and>
               shape (objs h ! mat self) = [n, k] \<and> shape (objs h ! mat m) = [k, p]"
  let ?xs = "snd (read_array h (mat self))" and ?ys = "snd (read_array h (mat m))"
  from asm valid_ref_read [of h "mat self" "[n, k]"]
  have a: "read_array h (mat self) = ([n, k], ?xs)" and la: "length ?xs = n * k"
    by (simp_all add: size_of_def)
  from asm valid_ref_read [of h "mat m" "[k, p]"]
  have b: "read_array h (mat m) = ([k, p], ?ys)" and lb: "length ?ys = k * p"
    by (simp_all add: size_of_def)
  have "outcome (Matrix2D_matmul self (Matrix m) h) = Inr ([n, p], matmul2 n k p ?xs ?ys)"
    using a b np_matmul_rank2 [OF la lb] by (simp add: outcome_matmul wrap_value_rank2)
  then obtain res h' where r: "Matrix2D_matmul self (Matrix m) h = Inr (res, h')"
    and v: "read_array h' (mat res) = ([n, p], matmul2 n k p ?xs ?ys)"
    by (auto simp: outcome_Inr)
  from matmul_fresh [OF r] have new: "length (objs h) \<le> mat res" .
  have sh: "Matrix2D_shape res h' = [n, p]"
    using v by (simp add: Matrix2D_shape_def read_array_def)
  have len: "length (snd (read_array h' (mat res))) = n * p"
    using v by (simp add: matmul2_length)
  have ent: "snd (read_array h' (mat res)) ! (i * p + j)
               = (\<Sum>l<k. ?xs ! (i * k + l) * ?ys ! (l * p + j))" if "i < n" "j < p" for i j
    using v matmul2_nth [OF that] by simp
  from r new sh len ent
  show "\<exists>res h'. Matrix2D_matmul self (Matrix m) h = Inr (res, h') \<and>
                 length (objs h) \<le> mat res \<and>
                 Matrix2D_shape res h' = [n, p] \<and>
                 length (snd (read_array h' (mat res))) = n * p \<and>
                 (\<forall>i<n. \<forall>j<p. snd (read_array h' (mat res)) ! (i * p + j)
                                 = (\<Sum>l<k. ?xs ! (i * k + l) * ?ys ! (l * p + j)))"
    by auto
qed

theorem matmul_contract_witness:
  "Matrix2D_matmul \<lparr>mat = 0\<rparr> (Val (PyNum 3))
     \<lparr>objs = [\<lparr>shape = [1, 2], base = 0\<rparr>, \<lparr>shape = [2, 1], base = 1\<rparr>],
      bufs = [[3, 4], [5, 6 :: int64]]\<rparr>
     = Inl (TypeError ''Matrix multiplication requires another Matrix2D'') \<and>
   Matrix2D_matmul \<lparr>mat = 0\<rparr> (Ndarray 1)
     \<lparr>objs = [\<lparr>shape = [1, 2], base = 0\<rparr>, \<lparr>shape = [2, 1], base = 1\<rparr>],
      bufs = [[3, 4], [5, 6 :: int64]]\<rparr>
     = Inl (TypeError ''Matrix multiplication requires another Matrix2D'') \<and>
   (\<exists>res h'. Matrix2D_matmul \<lparr>mat = 0\<rparr> (Matrix \<lparr>mat = 1\<rparr>)
                \<lparr>objs = [\<lparr>shape = [1, 2], base = 0\<rparr>, \<lparr>shape = [2, 1], base = 1\<rparr>],
                 bufs = [[3, 4], [5, 6 :: int64]]\<rparr> = Inr (res, h') \<and>
              2 \<le> mat res \<and> Matrix2D_shape res h' = [1, 1] \<and>
              snd (read_array h' (mat res)) ! 0 = 39)"
proof -
  let ?H = "\<lparr>objs = [\<lparr>shape = [1, 2], base = 0\<rparr>, \<lparr>shape = [2, 1], base = 1\<rparr>],
             bufs = [[3, 4], [5, 6 :: int64]]\<rparr>"
  let ?S = "\<lparr>mat = 0\<rparr>" and ?M = "\<lparr>mat = 1\<rparr>"
  have "\<forall>m. Val (PyNum 3) \<noteq> Matrix m" by simp
  with matmul_contract [of "Val (PyNum 3)" ?S ?H ?M 1 2 1]
  have 1: "Matrix2D_matmul ?S (Val (PyNum 3)) ?H
             = Inl (TypeError ''Matrix multiplication requires another Matrix2D'')"
    by blast
  have "\<forall>m. Ndarray 1 \<noteq> Matrix m" by simp
  with matmul_contract [of "Ndarray 1" ?S ?H ?M 1 2 1]
  have 2: "Matrix2D_matmul ?S (Ndarray 1) ?H
             = Inl (TypeError ''Matrix multiplication requires another Matrix2D'')"
    by blast
  have hyp: "valid_ref ?H (mat ?S) \<and> valid_ref ?H (mat ?M) \<and>
             shape (objs ?H ! mat ?S) = [1, 2] \<and> shape (objs ?H ! mat ?M) = [2, 1]"
    by (simp add: valid_ref_def size_of_def)
  with matmul_contract [of "Val (PyNum 3)" ?S ?H ?M 1 2 1]
  obtain res h' where r: "Matrix2D_matmul ?S (Matrix ?M) ?H = Inr (res, h')"
    and n: "length (objs ?H) \<le> mat res" and sh: "Matrix2D_shape res h' = [1, 1]"
    and e: "\<forall>i<1. \<forall>j<1. snd (read_array h' (mat res)) ! (i * 1 + j)
              = (\<Sum>l<2. snd (read_array ?H (mat ?S)) ! (i * 2 + l)
                         * snd (read_array ?H (mat ?M)) ! (l * 1 + j))"
    by blast
  from e have "snd (read_array h' (mat res)) ! 0
                 = (\<Sum>l<2. snd (read_array ?H (mat ?S)) ! l * snd (read_array ?H (mat ?M)) ! l)"
    by simp
  also have "\<dots> = 39"
    by (simp add: read_array_def lessThan_Suc numeral_2_eq_2)
  finally have v: "snd (read_array h' (mat res)) ! 0 = 39" .
  from n have "2 \<le> mat res" by simp
  with 1 2 r sh v show ?thesis by blast
qed

text \<open>
  C5. A tuple of rank 3 does not reach the rank check: the type check
  \<open>isinstance(data, list)\<close> comes first, so the constructor raises the \<open>TypeError\<close>, not
  the \<open>ValueError\<close> of the rank check (the spec's ShapeError).
\<close>

theorem init_rank3_tuple_counterexample:
  "np_shape (PyTuple [PyTuple [PyTuple [PyNum (7 :: int64)]]]) = Some [1, 1, 1] \<and>
   Matrix2D_init (Val (PyTuple [PyTuple [PyTuple [PyNum (7 :: int64)]]]))
     \<lparr>objs = [], bufs = []\<rparr> = Inl (TypeError ''Data must be a list or NumPy array'')"
  by (simp add: Matrix2D_init_def to_array_def)

text \<open>
  C5, amended. An array whose rank is neither 1 nor 2 (rank 0, rank 3 and above), and a
  list that \<open>np.array\<close> converts to such an array (rank 3 up to NumPy's limit of 64
  dimensions), make the constructor raise the \<open>ValueError\<close> of its rank check (the spec's
  ShapeError). A list nested deeper than that limit is refused by \<open>np.array\<close> itself, with
  a \<open>ValueError\<close> of its own, before the rank check. A tuple, of any rank, raises the
  \<open>TypeError\<close> of the type check. No instance is returned in any of these cases.
\<close>

theorem init_rank_error:
  "(ndim (objs h ! r) \<noteq> 1 \<and> ndim (objs h ! r) \<noteq> 2 \<longrightarrow>
      Matrix2D_init (Ndarray r) h = Inl (ValueError ''Only 1D or 2D matrices are allowed'')) \<and>
   (np_shape (PyList xs) = Some s \<and> length s \<noteq> 1 \<and> length s \<noteq> 2 \<and>
    length s \<le> NPY_MAXDIMS \<longrightarrow>
      Matrix2D_init (Val (PyList xs)) h = Inl (ValueError ''Only 1D or 2D matrices are allowed'')) \<and>
   (np_shape (PyList xs) = Some s \<and> NPY_MAXDIMS < length s \<longrightarrow>
      (\<exists>msg. Matrix2D_init (Val (PyList xs)) h = Inl (ValueError msg))) \<and>
   Matrix2D_init (Val (PyTuple ys)) h = Inl (TypeError ''Data must be a list or NumPy array'')"
proof (intro conjI impI)
  assume "ndim (objs h ! r) \<noteq> 1 \<and> ndim (objs h ! r) \<noteq> 2"
  then show "Matrix2D_init (Ndarray r) h = Inl (ValueError ''Only 1D or 2D matrices are allowed'')"
    by (simp add: init_ndarray)
next
  assume "np_shape (PyList xs) = Some s \<and> length s \<noteq> 1 \<and> length s \<noteq> 2 \<and>
          length s \<le> NPY_MAXDIMS"
  then have a: "np_shape (PyList xs) = Some s" and b: "length s \<le> NPY_MAXDIMS"
    and c: "length s \<noteq> 1" "length s \<noteq> 2" by simp_all
  from c show "Matrix2D_init (Val (PyList xs)) h
                 = Inl (ValueError ''Only 1D or 2D matrices are allowed'')"
    by (simp add: init_list_shape [OF a b])
next
  assume "np_shape (PyList xs) = Some s \<and> NPY_MAXDIMS < length s"
  then show "\<exists>msg. Matrix2D_init (Val (PyList xs)) h = Inl (ValueError msg)"
    using init_list_deep [of xs s h] by simp
next
  show "Matrix2D_init (Val (PyTuple ys)) h = Inl (TypeError ''Data must be a list or NumPy array'')"
    by (rule init_other)
qed

theorem init_rank_error_witness:
  "np_shape (PyList [PyList [PyList [PyNum (7 :: int64)]]]) = Some [1, 1, 1] \<and>
   Matrix2D_init (Val (PyList [PyList [PyList [PyNum (7 :: int64)]]])) empty_heap
     = Inl (ValueError ''Only 1D or 2D matrices are allowed'') \<and>
   ndim (objs \<lparr>objs = [\<lparr>shape = [2, 1, 2], base = 0\<rparr>], bufs = [[1, 2, 3, 4 :: int64]]\<rparr> ! 0) = 3 \<and>
   Matrix2D_init (Ndarray 0)
       \<lparr>objs = [\<lparr>shape = [2, 1, 2], base = 0\<rparr>], bufs = [[1, 2, 3, 4 :: int64]]\<rparr>
     = Inl (ValueError ''Only 1D or 2D matrices are allowed'') \<and>
   np_shape (PyList [nested 64 (7 :: int64)]) = Some (1 # replicate 64 1) \<and>
   (\<exists>msg. Matrix2D_init (Val (PyList [nested 64 (7 :: int64)])) empty_heap
            = Inl (ValueError msg)) \<and>
   Matrix2D_init (Val (PyTuple [PyTuple [PyTuple [PyNum (7 :: int64)]]])) empty_heap
     = Inl (TypeError ''Data must be a list or NumPy array'')"
proof -
  let ?H = "\<lparr>objs = [\<lparr>shape = [2, 1, 2], base = 0\<rparr>], bufs = [[1, 2, 3, 4 :: int64]]\<rparr>"
  let ?xs = "[PyList [PyList [PyNum (7 :: int64)]]]"
  let ?ds = "[nested 64 (7 :: int64)]"
  let ?ys = "[PyTuple [PyTuple [PyNum (7 :: int64)]]]"
  have a: "np_shape (PyList ?xs) = Some [1, 1, 1]" by simp
  have b: "ndim (objs ?H ! 0) = 3" by (simp add: ndim_def)
  have d: "np_shape (PyList ?ds) = Some (1 # replicate 64 1)" by (simp add: np_shape_nested)
  from init_rank_error [of ?H 0 ?xs "[1, 1, 1]" ?ys] a b
  have 1: "Matrix2D_init (Ndarray 0) ?H = Inl (ValueError ''Only 1D or 2D matrices are allowed'')"
    by simp
  from init_rank_error [of empty_heap 0 ?xs "[1, 1, 1]" ?ys] a
  have 2: "Matrix2D_init (Val (PyList ?xs)) empty_heap
             = Inl (ValueError ''Only 1D or 2D matrices are allowed'')"
    by (simp add: NPY_MAXDIMS_def)
  from init_rank_error [of empty_heap 0 ?ds "1 # replicate 64 1" ?ys] d
  have 3: "\<exists>msg. Matrix2D_init (Val (PyList ?ds)) empty_heap = Inl (ValueError msg)"
    by (simp add: NPY_MAXDIMS_def)
  from init_rank_error [of empty_heap 0 ?xs "[1, 1, 1]" ?ys]
  have 4: "Matrix2D_init (Val (PyTuple ?ys)) empty_heap
             = Inl (TypeError ''Data must be a list or NumPy array'')"
    by (rule conjunct2 [THEN conjunct2, THEN conjunct2])
  from a 2 b 1 d 3 4 show ?thesis by (intro conjI)
qed

text \<open>
  C6. A tuple of tuples of numbers is not accepted: the type check is
  \<open>isinstance(data, list)\<close>, so a tuple is not converted and raises the \<open>TypeError\<close>.
\<close>

theorem init_tuple_counterexample:
  "Matrix2D_init (Val (PyTuple [PyTuple [PyNum 1, PyNum 2], PyTuple [PyNum 3, PyNum (4 :: int64)]]))
     \<lparr>objs = [], bufs = []\<rparr> = Inl (TypeError ''Data must be a list or NumPy array'')"
  by (simp add: Matrix2D_init_def to_array_def)

text \<open>
  C6, amended. The constructor raises \<open>TypeError\<close> exactly when the input is neither a list
  nor an array (a number, a tuple, a \<open>Matrix2D\<close>, any other object). It returns an instance
  exactly when the input is a list that \<open>np.array\<close> converts to a rank-1 or rank-2 array, or
  an existing array of rank 1 or 2.
\<close>

theorem init_type_error_iff:
  "((\<exists>msg. Matrix2D_init data h = Inl (TypeError msg)) \<longleftrightarrow>
      (\<forall>xs. data \<noteq> Val (PyList xs)) \<and> (\<forall>r. data \<noteq> Ndarray r)) \<and>
   ((\<exists>m h'. Matrix2D_init data h = Inr (m, h')) \<longleftrightarrow>
      (\<exists>xs s. data = Val (PyList xs) \<and> np_shape (PyList xs) = Some s \<and>
              (length s = 1 \<or> length s = 2)) \<or>
      (\<exists>r. data = Ndarray r \<and> (ndim (objs h ! r) = 1 \<or> ndim (objs h ! r) = 2)))"
proof (cases data)
  case (Val v)
  show ?thesis
  proof (cases v)
    case (PyList xs)
    show ?thesis
    proof (cases "np_shape (PyList xs)")
      case None
      from init_list_ragged [OF None, of h] show ?thesis
        unfolding Val PyList using None by auto
    next
      case (Some s)
      show ?thesis
      proof (cases "length s \<le> NPY_MAXDIMS")
        case True
        show ?thesis unfolding Val PyList using Some
          by (auto simp: init_list_shape [OF Some True])
      next
        case False
        then have deep: "NPY_MAXDIMS < length s" by simp
        from init_list_deep [OF Some deep, of h] deep show ?thesis
          unfolding Val PyList using Some by (auto simp: NPY_MAXDIMS_def)
      qed
    qed
  qed (simp_all add: Val init_other)
next
  case (Ndarray r)
  show ?thesis unfolding Ndarray by (auto simp: init_ndarray)
qed (simp_all add: init_other)

theorem init_type_error_iff_witness:
  "Matrix2D_init (Val (PyTuple [PyTuple [PyNum 1, PyNum 2], PyTuple [PyNum 3, PyNum (4 :: int64)]])) empty_heap
     = Inl (TypeError ''Data must be a list or NumPy array'') \<and>
   (\<exists>m h'. Matrix2D_init (Val (PyList [PyList [PyNum 1, PyNum 2], PyList [PyNum 3, PyNum (4 :: int64)]]))
              empty_heap = Inr (m, h'))"
proof -
  let ?t = "Val (PyTuple [PyTuple [PyNum 1, PyNum 2], PyTuple [PyNum 3, PyNum (4 :: int64)]])"
  let ?xs = "[PyList [PyNum 1, PyNum 2], PyList [PyNum 3, PyNum (4 :: int64)]]"
  have "(\<forall>xs. ?t \<noteq> Val (PyList xs)) \<and> (\<forall>r. ?t \<noteq> Ndarray r)" by simp
  with init_type_error_iff [of ?t empty_heap]
  obtain msg where e: "Matrix2D_init ?t empty_heap = Inl (TypeError msg)" by blast
  have t: "Matrix2D_init ?t empty_heap = Inl (TypeError ''Data must be a list or NumPy array'')"
    using e by (simp add: init_other)
  have "np_shape (PyList ?xs) = Some [2, 2] \<and> (length [2, 2 :: nat] = 1 \<or> length [2, 2 :: nat] = 2)"
    by simp
  then have "\<exists>xs s. Val (PyList ?xs) = Val (PyList xs) \<and> np_shape (PyList xs) = Some s \<and>
                    (length s = 1 \<or> length s = 2)"
    by blast
  with init_type_error_iff [of "Val (PyList ?xs)" empty_heap]
  have "\<exists>m h'. Matrix2D_init (Val (PyList ?xs)) empty_heap = Inr (m, h')" by blast
  with t show ?thesis by simp
qed




text \<open>
  C8. When an operator returns, the store still holds every array object and buffer it held
  before, unchanged; so every array that existed before the call, the operands among them,
  reads as before. The instance returned wraps an array object that did not exist before,
  on a buffer that did not exist before: it shares nothing with either operand.
\<close>

theorem operators_frame:
  "(\<forall>m h'. Matrix2D_add self other h = Inr (m, h') \<longrightarrow>
      unchanged h h' \<and> length (objs h) \<le> mat m \<and> length (bufs h) \<le> base (objs h' ! mat m) \<and>
      (\<forall>r. valid_ref h r \<longrightarrow> read_array h' r = read_array h r \<and> mat m \<noteq> r \<and>
                             base (objs h' ! mat m) \<noteq> base (objs h ! r))) \<and>
   (\<forall>m h'. Matrix2D_sub self other h = Inr (m, h') \<longrightarrow>
      unchanged h h' \<and> length (objs h) \<le> mat m \<and> length (bufs h) \<le> base (objs h' ! mat m) \<and>
      (\<forall>r. valid_ref h r \<longrightarrow> read_array h' r = read_array h r \<and> mat m \<noteq> r \<and>
                             base (objs h' ! mat m) \<noteq> base (objs h ! r))) \<and>
   (\<forall>m h'. Matrix2D_mul self other h = Inr (m, h') \<longrightarrow>
      unchanged h h' \<and> length (objs h) \<le> mat m \<and> length (bufs h) \<le> base (objs h' ! mat m) \<and>
      (\<forall>r. valid_ref h r \<longrightarrow> read_array h' r = read_array h r \<and> mat m \<noteq> r \<and>
                             base (objs h' ! mat m) \<noteq> base (objs h ! r))) \<and>
   (\<forall>m h'. Matrix2D_matmul self other h = Inr (m, h') \<longrightarrow>
      unchanged h h' \<and> length (objs h) \<le> mat m \<and> length (bufs h) \<le> base (objs h' ! mat m) \<and>
      (\<forall>r. valid_ref h r \<longrightarrow> read_array h' r = read_array h r \<and> mat m \<noteq> r \<and>
                             base (objs h' ! mat m) \<noteq> base (objs h ! r))) \<and>
   (\<forall>m h'. Matrix2D_pow self other h = Inr (m, h') \<longrightarrow>
      unchanged h h' \<and> length (objs h) \<le> mat m \<and> length (bufs h) \<le> base (objs h' ! mat m) \<and>
      (\<forall>r. valid_ref h r \<longrightarrow> read_array h' r = read_array h r \<and> mat m \<noteq> r \<and>
                             base (objs h' ! mat m) \<noteq> base (objs h ! r)))"
proof -
  let ?P = "\<lambda>m h'. unchanged h h' \<and> length (objs h) \<le> mat m \<and>
      length (bufs h) \<le> base (objs h' ! mat m) \<and>
      (\<forall>r. valid_ref h r \<longrightarrow> read_array h' r = read_array h r \<and> mat m \<noteq> r \<and>
                             base (objs h' ! mat m) \<noteq> base (objs h ! r))"
  have w: "?P m h'" if "\<exists>res. wrap_result res h = Inr (m, h')" for m h'
    using that fresh_result by blast
  have "?P m h'" if "Matrix2D_add self other h = Inr (m, h')" for m h'
    using that by (intro w add_result)
  moreover have "?P m h'" if "Matrix2D_sub self other h = Inr (m, h')" for m h'
    using that by (intro w sub_result)
  moreover have "?P m h'" if "Matrix2D_mul self other h = Inr (m, h')" for m h'
    using that by (intro w mul_result)
  moreover have "?P m h'" if "Matrix2D_matmul self other h = Inr (m, h')" for m h'
    using that by (intro w matmul_result)
  moreover have "?P m h'" if "Matrix2D_pow self other h = Inr (m, h')" for m h'
    using that by (intro w pow_result)
  ultimately show ?thesis by blast
qed

theorem operators_frame_witness:
  "valid_ref \<lparr>objs = [\<lparr>shape = [2, 2], base = 0\<rparr>], bufs = [[1, 2, 3, 4 :: int64]]\<rparr> 0 \<and>
   (\<exists>m h'. Matrix2D_add \<lparr>mat = 0\<rparr> (Matrix \<lparr>mat = 0\<rparr>)
              \<lparr>objs = [\<lparr>shape = [2, 2], base = 0\<rparr>], bufs = [[1, 2, 3, 4 :: int64]]\<rparr> = Inr (m, h') \<and>
            read_array h' 0 = ([2, 2], [1, 2, 3, 4]) \<and> mat m \<noteq> 0 \<and> base (objs h' ! mat m) \<noteq> 0) \<and>
   (\<exists>m h'. Matrix2D_sub \<lparr>mat = 0\<rparr> (Matrix \<lparr>mat = 0\<rparr>)
              \<lparr>objs = [\<lparr>shape = [2, 2], base = 0\<rparr>], bufs = [[1, 2, 3, 4 :: int64]]\<rparr> = Inr (m, h') \<and>
            read_array h' 0 = ([2, 2], [1, 2, 3, 4]) \<and> mat m \<noteq> 0 \<and> base (objs h' ! mat m) \<noteq> 0) \<and>
   (\<exists>m h'. Matrix2D_mul \<lparr>mat = 0\<rparr> (Matrix \<lparr>mat = 0\<rparr>)
              \<lparr>objs = [\<lparr>shape = [2, 2], base = 0\<rparr>], bufs = [[1, 2, 3, 4 :: int64]]\<rparr> = Inr (m, h') \<and>
            read_array h' 0 = ([2, 2], [1, 2, 3, 4]) \<and> mat m \<noteq> 0 \<and> base (objs h' ! mat m) \<noteq> 0) \<and>
   (\<exists>m h'. Matrix2D_matmul \<lparr>mat = 0\<rparr> (Matrix \<lparr>mat = 0\<rparr>)
              \<lparr>objs = [\<lparr>shape = [2, 2], base = 0\<rparr>], bufs = [[1, 2, 3, 4 :: int64]]\<rparr> = Inr (m, h') \<and>
            read_array h' 0 = ([2, 2], [1, 2, 3, 4]) \<and> mat m \<noteq> 0 \<and> base (objs h' ! mat m) \<noteq> 0) \<and>
   (\<exists>m h'. Matrix2D_pow \<lparr>mat = 0\<rparr> (Val (PyNum 2))
              \<lparr>objs = [\<lparr>shape = [2, 2], base = 0\<rparr>], bufs = [[1, 2, 3, 4 :: int64]]\<rparr> = Inr (m, h') \<and>
            read_array h' 0 = ([2, 2], [1, 2, 3, 4]) \<and> mat m \<noteq> 0 \<and> base (objs h' ! mat m) \<noteq> 0)"
proof -
  let ?H = "\<lparr>objs = [\<lparr>shape = [2, 2], base = 0\<rparr>], bufs = [[1, 2, 3, 4 :: int64]]\<rparr>"
  let ?S = "\<lparr>mat = 0\<rparr>"
  let ?R = "\<lparr>mat = 1\<rparr>"
  let ?O = "[\<lparr>shape = [2, 2], base = 0\<rparr>, \<lparr>shape = [2, 2], base = 1\<rparr>]"
  note fr = operators_frame [of ?S "Matrix ?S" ?H]
  note fr_pow = operators_frame [of ?S "Val (PyNum 2)" ?H]
  have v: "valid_ref ?H 0" by (simp add: valid_ref_def size_of_def)
  have rd: "read_array ?H 0 = ([2, 2], [1, 2, 3, 4])" "base (objs ?H ! 0) = 0"
    by (simp_all add: read_array_def)
  have e2: "Matrix2D_add ?S (Matrix ?S) ?H = Inr (?R, \<lparr>objs = ?O, bufs = [[1, 2, 3, 4], [2, 4, 6, 8]]\<rparr>)"
    by code_simp
  have e3: "Matrix2D_sub ?S (Matrix ?S) ?H = Inr (?R, \<lparr>objs = ?O, bufs = [[1, 2, 3, 4], [0, 0, 0, 0]]\<rparr>)"
    by code_simp
  have e4: "Matrix2D_mul ?S (Matrix ?S) ?H = Inr (?R, \<lparr>objs = ?O, bufs = [[1, 2, 3, 4], [1, 4, 9, 16]]\<rparr>)"
    by code_simp
  have e5: "Matrix2D_matmul ?S (Matrix ?S) ?H
              = Inr (?R, \<lparr>objs = ?O, bufs = [[1, 2, 3, 4], [7, 10, 15, 22]]\<rparr>)"
    by code_simp
  have e6: "Matrix2D_pow ?S (Val (PyNum 2)) ?H
              = Inr (?R, \<lparr>objs = ?O, bufs = [[1, 2, 3, 4], [1, 4, 9, 16]]\<rparr>)"
    by code_simp
  from fr e2 v have r2: "\<exists>m h'. Matrix2D_add ?S (Matrix ?S) ?H = Inr (m, h') \<and>
      read_array h' 0 = read_array ?H 0 \<and> mat m \<noteq> 0 \<and> base (objs h' ! mat m) \<noteq> base (objs ?H ! 0)"
    by blast
  from fr e3 v have r3: "\<exists>m h'. Matrix2D_sub ?S (Matrix ?S) ?H = Inr (m, h') \<and>
      read_array h' 0 = read_array ?H 0 \<and> mat m \<noteq> 0 \<and> base (objs h' ! mat m) \<noteq> base (objs ?H ! 0)"
    by blast
  from fr e4 v have r4: "\<exists>m h'. Matrix2D_mul ?S (Matrix ?S) ?H = Inr (m, h') \<and>
      read_array h' 0 = read_array ?H 0 \<and> mat m \<noteq> 0 \<and> base (objs h' ! mat m) \<noteq> base (objs ?H ! 0)"
    by blast
  from fr e5 v have r5: "\<exists>m h'. Matrix2D_matmul ?S (Matrix ?S) ?H = Inr (m, h') \<and>
      read_array h' 0 = read_array ?H 0 \<and> mat m \<noteq> 0 \<and> base (objs h' ! mat m) \<noteq> base (objs ?H ! 0)"
    by blast
  from fr_pow e6 v have r6: "\<exists>m h'. Matrix2D_pow ?S (Val (PyNum 2)) ?H = Inr (m, h') \<and>
      read_array h' 0 = read_array ?H 0 \<and> mat m \<noteq> 0 \<and> base (objs h' ! mat m) \<noteq> base (objs ?H ! 0)"
    by blast
  from v r2 r3 r4 r5 r6 show ?thesis unfolding rd by (intro conjI)
qed

text \<open>
  C10. Given an existing rank-2 array, the constructor allocates nothing and stores the
  caller's array object itself. A later in-place write by the caller is therefore seen
  through the instance: an entry written into the array shows in the rendering and in the
  result of an operator, and a shape assigned to the array is what \<open>shape()\<close> returns.
  (NumPy accepts the assignment of any shape of the same size and refuses the others.)
\<close>

theorem init_aliases_array:
  assumes "valid_ref h r" and "shape (objs h ! r) = [n, c]"
  shows "Matrix2D_init (Ndarray r) h = Inr (\<lparr>mat = r\<rparr>, h) \<and>
         (\<forall>i v. i < n * c \<longrightarrow>
            (\<exists>h'. ndarray_setitem r i v h = Inr h' \<and>
              Matrix2D_str render \<lparr>mat = r\<rparr> h'
                = render ([n, c], (snd (read_array h r))[i := v]) \<and>
              Matrix2D_shape \<lparr>mat = r\<rparr> h' = [n, c] \<and>
              (\<forall>z. outcome (Matrix2D_add \<lparr>mat = r\<rparr> (Val (PyNum z)) h')
                     = Inr ([n, c], map (\<lambda>x. x + z) ((snd (read_array h r))[i := v]))))) \<and>
         (\<forall>s. size_of s = n * c \<longrightarrow>
            (\<exists>h'. ndarray_set_shape r s h = Inr h' \<and>
              Matrix2D_shape \<lparr>mat = r\<rparr> h' = s \<and>
              Matrix2D_str render \<lparr>mat = r\<rparr> h' = render (s, snd (read_array h r)))) \<and>
         (\<forall>s. size_of s \<noteq> n * c \<longrightarrow>
            (\<exists>msg. ndarray_set_shape r s h = Inl (ValueError msg)))"
proof (intro conjI allI impI)
  show "Matrix2D_init (Ndarray r) h = Inr (\<lparr>mat = r\<rparr>, h)"
    using assms(2) by (simp add: init_ndarray ndim_def)
next
  fix i v
  assume i: "i < n * c"
  let ?xs = "(snd (read_array h r))[i := v]"
  from valid_ref_read(2) [OF assms] have len: "length (snd (read_array h r)) = n * c"
    by (simp add: size_of_def)
  from read_setitem [OF assms(1), of i v] i len assms(2)
  obtain h' where w: "ndarray_setitem r i v h = Inr h'"
    and rd: "read_array h' r = ([n, c], ?xs)"
    by auto
  have s1: "Matrix2D_str render \<lparr>mat = r\<rparr> h' = render ([n, c], ?xs)"
    by (simp add: Matrix2D_str_def rd)
  have s2: "Matrix2D_shape \<lparr>mat = r\<rparr> h' = [n, c]"
    using rd by (simp add: Matrix2D_shape_def read_array_def)
  have l: "length ?xs = n * c" using len by simp
  have s3: "outcome (Matrix2D_add \<lparr>mat = r\<rparr> (Val (PyNum z)) h')
              = Inr ([n, c], map (\<lambda>x. x + z) ?xs)" for z
    using np_binop_scalar [OF l, of "(+)" z]
    by (simp add: outcome_add with_operand_def np_array_def NPY_MAXDIMS_def rd wrap_value_rank2)
  from w s1 s2 s3
  show "\<exists>h'. ndarray_setitem r i v h = Inr h' \<and>
              Matrix2D_str render \<lparr>mat = r\<rparr> h' = render ([n, c], ?xs) \<and>
              Matrix2D_shape \<lparr>mat = r\<rparr> h' = [n, c] \<and>
              (\<forall>z. outcome (Matrix2D_add \<lparr>mat = r\<rparr> (Val (PyNum z)) h')
                     = Inr ([n, c], map (\<lambda>x. x + z) ?xs))"
    by blast
next
  fix s
  assume "size_of s = n * c"
  with assms(2) have "size_of s = size_of (fst (read_array h r))"
    by (simp add: read_array_def size_of_def)
  from read_set_shape [OF assms(1) this]
  obtain h' where w: "ndarray_set_shape r s h = Inr h'"
    and rd: "read_array h' r = (s, snd (read_array h r))"
    by blast
  have s1: "Matrix2D_shape \<lparr>mat = r\<rparr> h' = s"
    using rd by (simp add: Matrix2D_shape_def read_array_def)
  have s2: "Matrix2D_str render \<lparr>mat = r\<rparr> h' = render (s, snd (read_array h r))"
    by (simp add: Matrix2D_str_def rd)
  from w s1 s2
  show "\<exists>h'. ndarray_set_shape r s h = Inr h' \<and>
              Matrix2D_shape \<lparr>mat = r\<rparr> h' = s \<and>
              Matrix2D_str render \<lparr>mat = r\<rparr> h' = render (s, snd (read_array h r))"
    by blast
next
  fix s
  assume "size_of s \<noteq> n * c"
  with assms(2) have "size_of s \<noteq> size_of (fst (read_array h r))"
    by (simp add: read_array_def size_of_def)
  then show "\<exists>msg. ndarray_set_shape r s h = Inl (ValueError msg)"
    by (rule set_shape_size)
qed

theorem init_aliases_array_witness:
  "valid_ref \<lparr>objs = [\<lparr>shape = [2, 2], base = 0\<rparr>], bufs = [[1, 2, 3, 4 :: int64]]\<rparr> 0 \<and>
   Matrix2D_init (Ndarray 0) \<lparr>objs = [\<lparr>shape = [2, 2], base = 0\<rparr>], bufs = [[1, 2, 3, 4 :: int64]]\<rparr>
     = Inr (\<lparr>mat = 0\<rparr>, \<lparr>objs = [\<lparr>shape = [2, 2], base = 0\<rparr>], bufs = [[1, 2, 3, 4]]\<rparr>) \<and>
   (\<forall>render.
      Matrix2D_str render \<lparr>mat = 0\<rparr>
          \<lparr>objs = [\<lparr>shape = [2, 2], base = 0\<rparr>], bufs = [[1, 2, 3, 4 :: int64]]\<rparr>
        = render ([2, 2], [1, 2, 3, 4])) \<and>
   ndarray_setitem 0 3 99 \<lparr>objs = [\<lparr>shape = [2, 2], base = 0\<rparr>], bufs = [[1, 2, 3, 4 :: int64]]\<rparr>
     = Inr \<lparr>objs = [\<lparr>shape = [2, 2], base = 0\<rparr>], bufs = [[1, 2, 3, 99]]\<rparr> \<and>
   (\<forall>render.
      Matrix2D_str render \<lparr>mat = 0\<rparr>
          \<lparr>objs = [\<lparr>shape = [2, 2], base = 0\<rparr>], bufs = [[1, 2, 3, 99 :: int64]]\<rparr>
        = render ([2, 2], [1, 2, 3, 99])) \<and>
   outcome (Matrix2D_add \<lparr>mat = 0\<rparr> (Val (PyNum 0))
              \<lparr>objs = [\<lparr>shape = [2, 2], base = 0\<rparr>], bufs = [[1, 2, 3, 99 :: int64]]\<rparr>)
     = Inr ([2, 2], [1, 2, 3, 99]) \<and>
   ndarray_set_shape 0 [4, 1] \<lparr>objs = [\<lparr>shape = [2, 2], base = 0\<rparr>], bufs = [[1, 2, 3, 4 :: int64]]\<rparr>
     = Inr \<lparr>objs = [\<lparr>shape = [4, 1], base = 0\<rparr>], bufs = [[1, 2, 3, 4]]\<rparr> \<and>
   Matrix2D_shape \<lparr>mat = 0\<rparr>
       \<lparr>objs = [\<lparr>shape = [4, 1], base = 0\<rparr>], bufs = [[1, 2, 3, 4 :: int64]]\<rparr> = [4, 1] \<and>
   (\<exists>msg. ndarray_set_shape 0 [3]
             \<lparr>objs = [\<lparr>shape = [2, 2], base = 0\<rparr>], bufs = [[1, 2, 3, 4 :: int64]]\<rparr>
           = Inl (ValueError msg))"
proof -
  let ?H = "\<lparr>objs = [\<lparr>shape = [2, 2], base = 0\<rparr>], bufs = [[1, 2, 3, 4 :: int64]]\<rparr>"
  let ?W = "\<lparr>objs = [\<lparr>shape = [2, 2], base = 0\<rparr>], bufs = [[1, 2, 3, 99 :: int64]]\<rparr>"
  let ?S = "\<lparr>objs = [\<lparr>shape = [4, 1], base = 0\<rparr>], bufs = [[1, 2, 3, 4 :: int64]]\<rparr>"
  have v: "valid_ref ?H 0" by (simp add: valid_ref_def size_of_def)
  have s: "shape (objs ?H ! 0) = [2, 2]" by simp
  have rd: "snd (read_array ?H 0) = [1, 2, 3, 4]" by (simp add: read_array_def)
  have i: "(3 :: nat) < 2 * 2" by simp
  have z: "size_of [4, 1] = 2 * 2" "size_of [3] \<noteq> 2 * 2" by (simp_all add: size_of_def)
  have upd: "[1, 2, 3, 4 :: int64][3 := 99] = [1, 2, 3, 99]" by (simp add: numeral_3_eq_3)
  have e1: "ndarray_setitem 0 3 99 ?H = Inr ?W" by code_simp
  have e2: "ndarray_set_shape 0 [4, 1] ?H = Inr ?S" by code_simp
  have before: "Matrix2D_str render \<lparr>mat = 0\<rparr> ?H = render ([2, 2], [1, 2, 3, 4])" for render
    by (simp add: Matrix2D_str_def read_array_def)
  note al = init_aliases_array [OF v s, unfolded rd]
  from al have 1: "Matrix2D_init (Ndarray 0) ?H = Inr (\<lparr>mat = 0\<rparr>, ?H)" by (rule conjunct1)
  from al [THEN conjunct2, THEN conjunct1, rule_format, OF i, where v = 99, unfolded e1 upd]
  have 2: "Matrix2D_str render \<lparr>mat = 0\<rparr> ?W = render ([2, 2], [1, 2, 3, 99])" for render
    by simp
  from al [THEN conjunct2, THEN conjunct1, rule_format, OF i, where v = 99, unfolded e1 upd]
  have "\<forall>z. outcome (Matrix2D_add \<lparr>mat = 0\<rparr> (Val (PyNum z)) ?W)
              = Inr ([2, 2], map (\<lambda>x. x + z) [1, 2, 3, 99])"
    by simp
  then have 3: "outcome (Matrix2D_add \<lparr>mat = 0\<rparr> (Val (PyNum 0)) ?W) = Inr ([2, 2], [1, 2, 3, 99])"
    by simp
  from al [THEN conjunct2, THEN conjunct2, THEN conjunct1, rule_format, OF z(1), unfolded e2]
  have 4: "Matrix2D_shape \<lparr>mat = 0\<rparr> ?S = [4, 1]"
    by simp
  from al [THEN conjunct2, THEN conjunct2, THEN conjunct2, rule_format, OF z(2)]
  have 5: "\<exists>msg. ndarray_set_shape 0 [3] ?H = Inl (ValueError msg)" .
  from before have b: "\<forall>render. Matrix2D_str render \<lparr>mat = 0\<rparr> ?H = render ([2, 2], [1, 2, 3, 4])"
    by blast
  from 2 have c: "\<forall>render. Matrix2D_str render \<lparr>mat = 0\<rparr> ?W = render ([2, 2], [1, 2, 3, 99])"
    by blast
  from v 1 b e1 c 3 e2 4 5 show ?thesis by (intro conjI)
qed

end
